theory Spec2Isabelle
  imports Complex_Main "HOL-Library.Log_Nat" "HOL-Library.Code_Target_Nat"
begin

section \<open>Data model\<close>

text \<open>
  The documents of the three collections the checkout flow works on, as the Mongoose
  schemas declare them (models Payment, Order, Product).  String unions are datatypes;
  an optional field is an \<open>option\<close>.  Amounts are whole pesos and moments are
  milliseconds since the epoch, both \<open>int\<close>; the arithmetic on them is that of IEEE
  doubles, given with the order controller below.  Free-text fields that no handler below
  reads (e-mail, phone, shipping address, notes, descriptions, images) and the
  \<open>created_at\<close>/\<open>updated_at\<close> stamps, which the framework maintains and no handler
  reads, are not part of the records.
\<close>

datatype provider = PayPal | Nequi | Manual

datatype payment_status = PPending | PCompleted | PFailed | PCancelled | PRefunded

datatype order_status =
  OPending | OPaid | OCancelled | OPreparing | OShipped | ODelivered | ORefunded

text \<open>Provider payloads: the fields the handlers read, and the rest as an opaque blob.\<close>

record paypal_resource =
  res_id :: "string option"
  res_fields :: string

record paypal_body =
  event_type :: "string option"
  resource :: "paypal_resource option"

record nequi_body =
  eventType :: "string option"
  paymentId :: "string option"
  nq_status :: "string option"
  nq_fields :: string

record capture_data =
  cap_status :: "string option"
  cap_fields :: string

datatype raw_response =
  NoResponse
  | FromResource paypal_resource
  | FromWebhook nequi_body
  | FromCapture capture_data
  | FromRefund string

record payment =
  pay_id :: string
  pay_order_id :: string
  pay_provider :: provider
  pay_provider_payment_id :: "string option"
  pay_status :: payment_status
  pay_amount_cop :: int
  pay_currency :: string
  pay_raw_response :: raw_response
  pay_confirmed_at :: "int option"

record order_item =
  item_product_id :: string
  item_title :: string
  item_price_cop :: int
  item_quantity :: int
  item_sku :: string

record order =
  ord_id :: string
  ord_user_id :: "string option"
  ord_items :: "order_item list"
  ord_subtotal_cop :: int
  ord_tax_cop :: int
  ord_total_cop :: int
  ord_currency :: string
  ord_status :: order_status
  ord_payment_provider :: provider
  ord_payment_id :: "string option"
  ord_payment_status :: payment_status
  ord_paid_at :: "int option"

record product =
  prod_id :: string
  prod_title :: string
  prod_price_cop :: int
  prod_inventory :: "int option"
  prod_sku :: string
  prod_active :: bool

record db =
  payments :: "payment list"
  orders :: "order list"
  products :: "product list"

section \<open>The store\<close>

text \<open>
  A collection is the list of its documents in insertion order.  \<open>findOne\<close> returns the
  first document matching the filter, \<open>findOneAndUpdate\<close> rewrites the first matching
  document in place and does nothing when there is none.
\<close>

definition findOne :: "('a \<Rightarrow> bool) \<Rightarrow> 'a list \<Rightarrow> 'a option" where
  "findOne q docs = List.find q docs"

fun findOneAndUpdate :: "('a \<Rightarrow> bool) \<Rightarrow> ('a \<Rightarrow> 'a) \<Rightarrow> 'a list \<Rightarrow> 'a list" where
  "findOneAndUpdate q u [] = []"
| "findOneAndUpdate q u (d # ds) =
     (if q d then u d # ds else d # findOneAndUpdate q u ds)"

section \<open>HTTP replies\<close>

datatype reply =
  ErrorJson string
  | ErrorsJson "string list"
  | Received
  | PayPalCreated "string option" "string option"
  | NequiCreated "string option" "string option" "string option"
  | CaptureJson capture_data
  | RefundJson string
  | OrderCreated string int string order_status
  | OrderJson order

datatype response = Response (code: nat) (reply: reply)

definition is_2xx :: "response \<Rightarrow> bool" where
  "is_2xx r = (200 \<le> code r \<and> code r < 300)"

section \<open>Webhook signatures (services/paypal.ts, services/nequi.ts)\<close>

fun digits :: "nat \<Rightarrow> string" where
  "digits n =
     (if n < 10 then [''0123456789'' ! n]
      else digits (n div 10) @ [''0123456789'' ! (n mod 10)])"

declare digits.simps [simp del]

definition number_toString :: "int \<Rightarrow> string" where
  "number_toString i = (if i < 0 then ''-'' @ digits (nat (- i)) else digits (nat i))"

text \<open>PayPalService.generateWebhookSignature: the placeholder built from \<open>Date.now()\<close>.\<close>

definition paypal_generateWebhookSignature :: "paypal_body \<Rightarrow> string option \<Rightarrow> int \<Rightarrow> string" where
  "paypal_generateWebhookSignature body webhookId now =
     ''placeholder-signature-'' @ number_toString now"

text \<open>
  PayPalService.verifyWebhookSignature.  The header may be absent, and an absent header
  is not \<open>===\<close> to any string.
\<close>

definition paypal_verifyWebhookSignature ::
  "paypal_body \<Rightarrow> string option \<Rightarrow> string option \<Rightarrow> int \<Rightarrow> bool" where
  "paypal_verifyWebhookSignature body signature webhookId now =
     (let expectedSignature = paypal_generateWebhookSignature body webhookId now
      in signature = Some expectedSignature)"

text \<open>
  NequiService.generateWebhookSignature: HMAC-SHA256, in hex, of the serialised payload
  followed by the timestamp header.  The hash and \<open>JSON.stringify\<close> are library
  functions, taken as parameters together with the configured secret.
\<close>

record nequi_crypto =
  hmac_sha256_hex :: "string \<Rightarrow> string \<Rightarrow> string"
  JSON_stringify :: "nequi_body \<Rightarrow> string"
  NEQUI_WEBHOOK_SECRET :: "string option"

definition nequi_generateWebhookSignature ::
  "nequi_crypto \<Rightarrow> nequi_body \<Rightarrow> string option \<Rightarrow> string" where
  "nequi_generateWebhookSignature cr payload timestamp =
     (let secret = (case NEQUI_WEBHOOK_SECRET cr of
                      None \<Rightarrow> ''fallback-secret''
                    | Some k \<Rightarrow> if k = [] then ''fallback-secret'' else k);
          data = JSON_stringify cr payload
                 @ (case timestamp of None \<Rightarrow> ''undefined'' | Some t \<Rightarrow> t)
      in hmac_sha256_hex cr secret data)"

definition nequi_verifyWebhookSignature ::
  "nequi_crypto \<Rightarrow> nequi_body \<Rightarrow> string option \<Rightarrow> string option \<Rightarrow> bool" where
  "nequi_verifyWebhookSignature cr payload signature timestamp =
     (let expectedSignature = nequi_generateWebhookSignature cr payload timestamp
      in signature = Some expectedSignature)"

section \<open>Webhook handlers (routes/webhooks.ts)\<close>

definition handlePayPalPaymentCompleted :: "paypal_resource \<Rightarrow> int \<Rightarrow> db \<Rightarrow> db" where
  "handlePayPalPaymentCompleted res now s =
     (let orderId = res_id res in
      case findOne (\<lambda>p. pay_provider_payment_id p = orderId) (payments s) of
        None \<Rightarrow> s
      | Some payment \<Rightarrow>
          if pay_status payment = PPending then
            s\<lparr>payments :=
                 findOneAndUpdate (\<lambda>p. pay_id p = pay_id payment)
                   (\<lambda>p. p\<lparr>pay_status := PCompleted,
                           pay_raw_response := FromResource res,
                           pay_confirmed_at := Some now\<rparr>)
                   (payments s),
               orders :=
                 findOneAndUpdate (\<lambda>ord. ord_id ord = pay_order_id payment)
                   (\<lambda>ord. ord\<lparr>ord_status := OPaid,
                               ord_payment_status := PCompleted,
                               ord_paid_at := Some now\<rparr>)
                   (orders s)\<rparr>
          else s)"

definition handlePayPalPaymentFailed :: "paypal_resource \<Rightarrow> db \<Rightarrow> db" where
  "handlePayPalPaymentFailed res s =
     (let orderId = res_id res in
      case findOne (\<lambda>p. pay_provider_payment_id p = orderId) (payments s) of
        None \<Rightarrow> s
      | Some payment \<Rightarrow>
          s\<lparr>payments :=
               findOneAndUpdate (\<lambda>p. pay_id p = pay_id payment)
                 (\<lambda>p. p\<lparr>pay_status := PFailed,
                         pay_raw_response := FromResource res\<rparr>)
                 (payments s),
             orders :=
               findOneAndUpdate (\<lambda>ord. ord_id ord = pay_order_id payment)
                 (\<lambda>ord. ord\<lparr>ord_status := OCancelled,
                             ord_payment_status := PFailed\<rparr>)
                 (orders s)\<rparr>)"

definition handleNequiPaymentCompleted :: "string option \<Rightarrow> nequi_body \<Rightarrow> int \<Rightarrow> db \<Rightarrow> db" where
  "handleNequiPaymentCompleted pid webhookData now s =
     (case findOne (\<lambda>p. pay_provider_payment_id p = pid) (payments s) of
        None \<Rightarrow> s
      | Some payment \<Rightarrow>
          if pay_status payment = PPending then
            s\<lparr>payments :=
                 findOneAndUpdate (\<lambda>p. pay_id p = pay_id payment)
                   (\<lambda>p. p\<lparr>pay_status := PCompleted,
                           pay_raw_response := FromWebhook webhookData,
                           pay_confirmed_at := Some now\<rparr>)
                   (payments s),
               orders :=
                 findOneAndUpdate (\<lambda>ord. ord_id ord = pay_order_id payment)
                   (\<lambda>ord. ord\<lparr>ord_status := OPaid,
                               ord_payment_status := PCompleted,
                               ord_paid_at := Some now\<rparr>)
                   (orders s)\<rparr>
          else s)"

definition handleNequiPaymentFailed :: "string option \<Rightarrow> nequi_body \<Rightarrow> db \<Rightarrow> db" where
  "handleNequiPaymentFailed pid webhookData s =
     (case findOne (\<lambda>p. pay_provider_payment_id p = pid) (payments s) of
        None \<Rightarrow> s
      | Some payment \<Rightarrow>
          s\<lparr>payments :=
               findOneAndUpdate (\<lambda>p. pay_id p = pay_id payment)
                 (\<lambda>p. p\<lparr>pay_status := PFailed,
                         pay_raw_response := FromWebhook webhookData\<rparr>)
                 (payments s),
             orders :=
               findOneAndUpdate (\<lambda>ord. ord_id ord = pay_order_id payment)
                 (\<lambda>ord. ord\<lparr>ord_status := OCancelled,
                             ord_payment_status := PFailed\<rparr>)
                 (orders s)\<rparr>)"

text \<open>
  The two routes.  A request carries the signature headers and the parsed body; the
  webhook id comes from the environment.  Reading \<open>resource.id\<close> of an absent resource
  throws, and the route's \<open>catch\<close> answers 500.
\<close>

record paypal_request =
  pp_signature :: "string option"
  pp_body :: paypal_body

record nequi_request =
  nq_signature :: "string option"
  nq_timestamp :: "string option"
  nq_body :: nequi_body

definition paypal_webhook ::
  "string option \<Rightarrow> paypal_request \<Rightarrow> int \<Rightarrow> db \<Rightarrow> response \<times> db" where
  "paypal_webhook webhookId req now s =
     (if \<not> paypal_verifyWebhookSignature (pp_body req) (pp_signature req) webhookId now
      then (Response 400 (ErrorJson ''Invalid signature''), s)
      else if event_type (pp_body req) = Some ''PAYMENT.CAPTURE.COMPLETED'' then
        (case resource (pp_body req) of
           None \<Rightarrow> (Response 500 (ErrorJson ''Webhook processing failed''), s)
         | Some res \<Rightarrow>
             (Response 200 Received, handlePayPalPaymentCompleted res now s))
      else if event_type (pp_body req) = Some ''PAYMENT.CAPTURE.DENIED'' then
        (case resource (pp_body req) of
           None \<Rightarrow> (Response 500 (ErrorJson ''Webhook processing failed''), s)
         | Some res \<Rightarrow>
             (Response 200 Received, handlePayPalPaymentFailed res s))
      else (Response 200 Received, s))"

definition nequi_webhook ::
  "nequi_crypto \<Rightarrow> nequi_request \<Rightarrow> int \<Rightarrow> db \<Rightarrow> response \<times> db" where
  "nequi_webhook cr req now s =
     (if \<not> nequi_verifyWebhookSignature cr (nq_body req) (nq_signature req) (nq_timestamp req)
      then (Response 400 (ErrorJson ''Invalid signature''), s)
      else if eventType (nq_body req) = Some ''PAYMENT_COMPLETED'' then
        (Response 200 Received,
         handleNequiPaymentCompleted (paymentId (nq_body req)) (nq_body req) now s)
      else if eventType (nq_body req) = Some ''PAYMENT_FAILED'' then
        (Response 200 Received,
         handleNequiPaymentFailed (paymentId (nq_body req)) (nq_body req) s)
      else (Response 200 Received, s))"

section \<open>Payment controller\<close>

text \<open>
  What a call to an external service came to: it threw, or it returned a value.  The
  provider services (PayPalService.createOrder, captureOrder, refundOrder and their Nequi
  counterparts) talk to the network, so the outcome of each call is an input of the
  controller that makes it.  So are the identifiers drawn by \<open>generatePaymentId\<close> and
  \<open>generateOrderId\<close>, the clock, and the list of errors that the express-validator
  chain in front of the controller produced.
\<close>

datatype 'a outcome = Threw | Returned 'a

datatype store_error = ValidationError | DuplicateKey

record user =
  userId :: string
  user_role :: string

record paypal_payment_data =
  orderID :: "string option"
  approvalUrl :: "string option"

record nequi_payment_data =
  np_paymentId :: "string option"
  qrImage :: "string option"
  redirectUrl :: "string option"

text \<open>The validators of PaymentSchema that bear on the fields set at creation.\<close>

definition PaymentSchema_validate :: "payment \<Rightarrow> bool" where
  "PaymentSchema_validate p =
     (pay_id p \<noteq> [] \<and> pay_order_id p \<noteq> [] \<and> 0 \<le> pay_amount_cop p
      \<and> (pay_currency p = ''COP'' \<or> pay_currency p = ''USD''))"

text \<open>
  \<open>payment.save()\<close>: the document is validated, then inserted unless it collides with a
  stored document on a unique index of the collection.  The schema gives \<open>id\<close> a unique
  index.  For \<open>order_id\<close> it declares two indexes on the same key, \<open>index: true\<close> on the
  path and \<open>PaymentSchema.index({ order_id: 1 }, { unique: true })\<close> after it.  They are
  created in that order under the same name \<open>order_id_1\<close>, so the plain index is built and
  the unique one is refused as conflicting with it: the collection has no unique index on
  \<open>order_id\<close>, and a second payment of an order is inserted like any other.
\<close>

definition Payment_save :: "payment \<Rightarrow> payment list \<Rightarrow> store_error + payment list" where
  "Payment_save p ps =
     (if \<not> PaymentSchema_validate p then Inl ValidationError
      else if pay_id p \<in> set (map pay_id ps) then Inl DuplicateKey
      else Inr (ps @ [p]))"

record create_payment_request =
  cr_errors :: "string list"
  cr_user :: "user option"
  cr_order_id :: string

text \<open>
  \<open>req.user?.role !== 'admin' && order.user_id !== req.user?.userId\<close>: without a user
  both sides of the second comparison may be undefined, and then they are equal.
\<close>

definition access_denied :: "user option \<Rightarrow> order \<Rightarrow> bool" where
  "access_denied u ord =
     (map_option user_role u \<noteq> Some ''admin'' \<and> ord_user_id ord \<noteq> map_option userId u)"

definition createPayPalPayment ::
  "create_payment_request \<Rightarrow> paypal_payment_data outcome \<Rightarrow> string \<Rightarrow> db \<Rightarrow> response \<times> db" where
  "createPayPalPayment req paymentData newId s =
     (if cr_errors req \<noteq> [] then (Response 400 (ErrorsJson (cr_errors req)), s)
      else case findOne (\<lambda>ord. ord_id ord = cr_order_id req) (orders s) of
        None \<Rightarrow> (Response 404 (ErrorJson ''Order not found''), s)
      | Some ord \<Rightarrow>
          if ord_status ord \<noteq> OPending
            then (Response 400 (ErrorJson ''Order is not in pending status''), s)
          else if access_denied (cr_user req) ord
            then (Response 403 (ErrorJson ''Access denied''), s)
          else case paymentData of
            Threw \<Rightarrow> (Response 500 (ErrorJson ''Failed to create PayPal payment''), s)
          | Returned pd \<Rightarrow>
              (let payment = \<lparr>pay_id = newId,
                              pay_order_id = ord_id ord,
                              pay_provider = PayPal,
                              pay_provider_payment_id = orderID pd,
                              pay_status = PPending,
                              pay_amount_cop = ord_total_cop ord,
                              pay_currency = ord_currency ord,
                              pay_raw_response = NoResponse,
                              pay_confirmed_at = None\<rparr>
               in case Payment_save payment (payments s) of
                 Inl e \<Rightarrow> (Response 500 (ErrorJson ''Failed to create PayPal payment''), s)
               | Inr ps \<Rightarrow>
                   (Response 200 (PayPalCreated (orderID pd) (approvalUrl pd)),
                    s\<lparr>payments := ps,
                      orders :=
                        findOneAndUpdate (\<lambda>d. ord_id d = cr_order_id req)
                          (\<lambda>d. d\<lparr>ord_payment_id := Some (pay_id payment)\<rparr>)
                          (orders s)\<rparr>)))"

definition createNequiPayment ::
  "create_payment_request \<Rightarrow> nequi_payment_data outcome \<Rightarrow> string \<Rightarrow> db \<Rightarrow> response \<times> db" where
  "createNequiPayment req paymentData newId s =
     (if cr_errors req \<noteq> [] then (Response 400 (ErrorsJson (cr_errors req)), s)
      else case findOne (\<lambda>ord. ord_id ord = cr_order_id req) (orders s) of
        None \<Rightarrow> (Response 404 (ErrorJson ''Order not found''), s)
      | Some ord \<Rightarrow>
          if ord_status ord \<noteq> OPending
            then (Response 400 (ErrorJson ''Order is not in pending status''), s)
          else if access_denied (cr_user req) ord
            then (Response 403 (ErrorJson ''Access denied''), s)
          else case paymentData of
            Threw \<Rightarrow> (Response 500 (ErrorJson ''Failed to create Nequi payment''), s)
          | Returned pd \<Rightarrow>
              (let payment = \<lparr>pay_id = newId,
                              pay_order_id = ord_id ord,
                              pay_provider = Nequi,
                              pay_provider_payment_id = np_paymentId pd,
                              pay_status = PPending,
                              pay_amount_cop = ord_total_cop ord,
                              pay_currency = ord_currency ord,
                              pay_raw_response = NoResponse,
                              pay_confirmed_at = None\<rparr>
               in case Payment_save payment (payments s) of
                 Inl e \<Rightarrow> (Response 500 (ErrorJson ''Failed to create Nequi payment''), s)
               | Inr ps \<Rightarrow>
                   (Response 200 (NequiCreated (np_paymentId pd) (qrImage pd) (redirectUrl pd)),
                    s\<lparr>payments := ps,
                      orders :=
                        findOneAndUpdate (\<lambda>d. ord_id d = cr_order_id req)
                          (\<lambda>d. d\<lparr>ord_payment_id := Some (pay_id payment)\<rparr>)
                          (orders s)\<rparr>)))"

record capture_request =
  cap_errors :: "string list"
  cap_orderId :: string

definition capturePayPalPayment ::
  "capture_request \<Rightarrow> capture_data outcome \<Rightarrow> int \<Rightarrow> db \<Rightarrow> response \<times> db" where
  "capturePayPalPayment req captureData now s =
     (if cap_errors req \<noteq> [] then (Response 400 (ErrorsJson (cap_errors req)), s)
      else case captureData of
        Threw \<Rightarrow> (Response 500 (ErrorJson ''Failed to capture PayPal payment''), s)
      | Returned cd \<Rightarrow>
          if cap_status cd = Some ''COMPLETED'' then
            (case findOne (\<lambda>p. pay_provider_payment_id p = Some (cap_orderId req)) (payments s) of
               None \<Rightarrow> (Response 200 (CaptureJson cd), s)
             | Some payment \<Rightarrow>
                 (Response 200 (CaptureJson cd),
                  s\<lparr>payments :=
                       findOneAndUpdate (\<lambda>p. pay_id p = pay_id payment)
                         (\<lambda>p. p\<lparr>pay_status := PCompleted,
                                 pay_raw_response := FromCapture cd,
                                 pay_confirmed_at := Some now\<rparr>)
                         (payments s),
                     orders :=
                       findOneAndUpdate (\<lambda>ord. ord_id ord = pay_order_id payment)
                         (\<lambda>ord. ord\<lparr>ord_status := OPaid,
                                     ord_payment_status := PCompleted,
                                     ord_paid_at := Some now\<rparr>)
                         (orders s)\<rparr>))
          else (Response 200 (CaptureJson cd), s))"

record refund_request =
  rf_errors :: "string list"
  rf_user :: "user option"
  rf_payment_id :: string

definition refundPayment ::
  "refund_request \<Rightarrow> string outcome \<Rightarrow> db \<Rightarrow> response \<times> db" where
  "refundPayment req refundCall s =
     (if rf_errors req \<noteq> [] then (Response 400 (ErrorsJson (rf_errors req)), s)
      else if map_option user_role (rf_user req) \<noteq> Some ''admin''
        then (Response 403 (ErrorJson ''Access denied''), s)
      else case findOne (\<lambda>p. pay_id p = rf_payment_id req) (payments s) of
        None \<Rightarrow> (Response 404 (ErrorJson ''Payment not found''), s)
      | Some payment \<Rightarrow>
          if pay_provider payment = PayPal \<or> pay_provider payment = Nequi then
            (case refundCall of
               Threw \<Rightarrow> (Response 500 (ErrorJson ''Failed to refund payment''), s)
             | Returned refundResult \<Rightarrow>
                 (Response 200 (RefundJson refundResult),
                  s\<lparr>payments :=
                       findOneAndUpdate (\<lambda>p. pay_id p = rf_payment_id req)
                         (\<lambda>p. p\<lparr>pay_status := PRefunded,
                                 pay_raw_response := FromRefund refundResult\<rparr>)
                         (payments s),
                     orders :=
                       findOneAndUpdate (\<lambda>ord. ord_id ord = pay_order_id payment)
                         (\<lambda>ord. ord\<lparr>ord_status := ORefunded\<rparr>)
                         (orders s)\<rparr>))
          else (Response 400 (ErrorJson ''Refund not supported for this payment provider''), s))"

section \<open>Order controller\<close>

text \<open>
  Numbers are IEEE doubles.  A double is \<open>mant * 2 ^ expo\<close> with a significand of at most
  53 bits, so a whole number is a double when it has at most 53 significant bits, which
  every whole number up to \<open>2 ^ 53\<close> in magnitude has.  The sum and the product of two
  doubles are the exact result rounded to 53 significant bits, to the nearest and to the
  even one at a tie: \<open>round_to_53\<close>.  The result of rounding a whole number is whole.
  A result of magnitude \<open>2 ^ 1024\<close> or more, which the code holds as \<open>Infinity\<close>, stays
  here the whole number of that size.

  \<open>calculateTax\<close> (utils/helpers.ts) is \<open>Math.round(subtotal * taxRate)\<close>.  The product
  of a whole double with the double \<open>d\<close> is the exact product rounded in the same way;
  \<open>Math.round\<close> takes a half up.  The default rate is the double nearest to 0.19.
\<close>

record double =
  mant :: int
  expo :: int

definition double_value :: "double \<Rightarrow> rat" where
  "double_value d = of_int (mant d) * 2 powi (expo d)"

definition round_multiple :: "int \<Rightarrow> int \<Rightarrow> int" where
  "round_multiple u P =
     (let q = P div u; r = P mod u
      in (if 2 * r < u then q
          else if u < 2 * r then q + 1
          else if even q then q else q + 1) * u)"

definition round_to_53 :: "int \<Rightarrow> int" where
  "round_to_53 P =
     (let k = bitlen \<bar>P\<bar> - 53 in
      if k \<le> 0 then P else round_multiple (2 ^ nat k) P)"

definition js_add :: "int \<Rightarrow> int \<Rightarrow> int" where
  "js_add a b = round_to_53 (a + b)"

definition js_sub :: "int \<Rightarrow> int \<Rightarrow> int" where
  "js_sub a b = round_to_53 (a - b)"

definition js_mul :: "int \<Rightarrow> int \<Rightarrow> int" where
  "js_mul a b = round_to_53 (a * b)"

definition js_times :: "int \<Rightarrow> double \<Rightarrow> rat" where
  "js_times n d = of_int (round_to_53 (n * mant d)) * 2 powi (expo d)"

definition Math_round :: "rat \<Rightarrow> int" where
  "Math_round x = \<lfloor>x + 1 / 2\<rfloor>"

definition calculateTax :: "int \<Rightarrow> double \<Rightarrow> int" where
  "calculateTax subtotal taxRate = Math_round (js_times subtotal taxRate)"

definition defaultTaxRate :: double where
  "defaultTaxRate = \<lparr>mant = 6845471433603154, expo = - 55\<rparr>"

text \<open>
  An item of the request: the two fields the controller reads, and a price the client may
  send along, which it does not read.
\<close>

record order_line =
  line_product_id :: string
  line_quantity :: int
  line_price_cop :: "int option"

record create_order_request =
  co_errors :: "string list"
  co_user :: "user option"
  co_items :: "order_line list"
  co_payment_method :: string

text \<open>
  The loop of \<open>createOrder\<close> over the requested items: it returns at the first item whose
  product is missing, inactive or short of stock, and otherwise accumulates the subtotal
  and the validated items, each with the price, title and sku of the stored product.
\<close>

fun validate_items ::
  "product list \<Rightarrow> order_line list \<Rightarrow> int \<Rightarrow> order_item list \<Rightarrow> string + (int \<times> order_item list)" where
  "validate_items ps [] subtotal_cop validatedItems = Inr (subtotal_cop, validatedItems)"
| "validate_items ps (item # rest) subtotal_cop validatedItems =
     (case findOne (\<lambda>p. prod_id p = line_product_id item \<and> prod_active p) ps of
        None \<Rightarrow> Inl (''Product '' @ line_product_id item @ '' not found or inactive'')
      | Some product \<Rightarrow>
          if (case prod_inventory product of
                None \<Rightarrow> False
              | Some inventory \<Rightarrow> inventory < line_quantity item)
            then Inl (''Insufficient inventory for product '' @ prod_title product)
          else validate_items ps rest
                 (js_add subtotal_cop (js_mul (prod_price_cop product) (line_quantity item)))
                 (validatedItems @
                    [\<lparr>item_product_id = prod_id product,
                      item_title = prod_title product,
                      item_price_cop = prod_price_cop product,
                      item_quantity = line_quantity item,
                      item_sku = prod_sku product\<rparr>]))"

definition provider_of_string :: "string \<Rightarrow> provider option" where
  "provider_of_string m =
     (if m = ''paypal'' then Some PayPal
      else if m = ''nequi'' then Some Nequi
      else if m = ''manual'' then Some Manual
      else None)"

definition OrderItemSchema_validate :: "order_item \<Rightarrow> bool" where
  "OrderItemSchema_validate i =
     (item_product_id i \<noteq> [] \<and> item_title i \<noteq> [] \<and> 0 \<le> item_price_cop i
      \<and> 1 \<le> item_quantity i \<and> item_sku i \<noteq> [])"

definition OrderSchema_validate :: "order \<Rightarrow> bool" where
  "OrderSchema_validate d =
     (ord_id d \<noteq> [] \<and> list_all OrderItemSchema_validate (ord_items d)
      \<and> 0 \<le> ord_subtotal_cop d \<and> 0 \<le> ord_tax_cop d \<and> 0 \<le> ord_total_cop d
      \<and> (ord_currency d = ''COP'' \<or> ord_currency d = ''USD''))"

text \<open>\<open>order.save()\<close>: validation, then insertion under the unique index on \<open>id\<close>.\<close>

definition Order_save :: "order \<Rightarrow> order list \<Rightarrow> store_error + order list" where
  "Order_save d ds =
     (if \<not> OrderSchema_validate d then Inl ValidationError
      else if ord_id d \<in> set (map ord_id ds) then Inl DuplicateKey
      else Inr (ds @ [d]))"

text \<open>
  \<open>Product.findOneAndUpdate({ id }, { $inc: { inventory: delta } })\<close>.  The store
  refuses to increment a field that holds null, which is the schema's default for
  \<open>inventory\<close>; the flag tells whether the update went through.
\<close>

definition inc_inventory :: "string \<Rightarrow> int \<Rightarrow> product list \<Rightarrow> bool \<times> product list" where
  "inc_inventory pid delta ps =
     (case findOne (\<lambda>p. prod_id p = pid) ps of
        None \<Rightarrow> (True, ps)
      | Some p \<Rightarrow>
          (case prod_inventory p of
             None \<Rightarrow> (False, ps)
           | Some n \<Rightarrow>
               (True, findOneAndUpdate (\<lambda>p. prod_id p = pid)
                        (\<lambda>p. p\<lparr>prod_inventory := Some (n + delta)\<rparr>) ps)))"

fun update_inventory :: "order_item list \<Rightarrow> product list \<Rightarrow> bool \<times> product list" where
  "update_inventory [] ps = (True, ps)"
| "update_inventory (item # rest) ps =
     (if item_quantity item > 0 then
        (case inc_inventory (item_product_id item) (- item_quantity item) ps of
           (False, ps') \<Rightarrow> (False, ps')
         | (True, ps') \<Rightarrow> update_inventory rest ps')
      else update_inventory rest ps)"

definition createOrder ::
  "create_order_request \<Rightarrow> string \<Rightarrow> db \<Rightarrow> response \<times> db" where
  "createOrder req newId s =
     (if co_errors req \<noteq> [] then (Response 400 (ErrorsJson (co_errors req)), s)
      else if co_items req = []
        then (Response 400 (ErrorJson ''Items array is required and cannot be empty''), s)
      else case validate_items (products s) (co_items req) 0 [] of
        Inl msg \<Rightarrow> (Response 400 (ErrorJson msg), s)
      | Inr (subtotal_cop, validatedItems) \<Rightarrow>
          (let tax_cop = calculateTax subtotal_cop defaultTaxRate;
               total_cop = js_add subtotal_cop tax_cop
           in case provider_of_string (co_payment_method req) of
             None \<Rightarrow> (Response 500 (ErrorJson ''Failed to create order''), s)
           | Some payment_method \<Rightarrow>
               (let orderData = \<lparr>ord_id = newId,
                                 ord_user_id = map_option userId (co_user req),
                                 ord_items = validatedItems,
                                 ord_subtotal_cop = subtotal_cop,
                                 ord_tax_cop = tax_cop,
                                 ord_total_cop = total_cop,
                                 ord_currency = ''COP'',
                                 ord_status = OPending,
                                 ord_payment_provider = payment_method,
                                 ord_payment_id = None,
                                 ord_payment_status = PPending,
                                 ord_paid_at = None\<rparr>
                in case Order_save orderData (orders s) of
                  Inl e \<Rightarrow> (Response 500 (ErrorJson ''Failed to create order''), s)
                | Inr ds \<Rightarrow>
                    (case update_inventory validatedItems (products s) of
                       (False, ps) \<Rightarrow>
                         (Response 500 (ErrorJson ''Failed to create order''),
                          s\<lparr>orders := ds, products := ps\<rparr>)
                     | (True, ps) \<Rightarrow>
                         (Response 201 (OrderCreated newId total_cop ''COP'' OPending),
                          s\<lparr>orders := ds, products := ps\<rparr>)))))"

definition order_status_of_string :: "string \<Rightarrow> order_status option" where
  "order_status_of_string st =
     (if st = ''pending'' then Some OPending
      else if st = ''paid'' then Some OPaid
      else if st = ''cancelled'' then Some OCancelled
      else if st = ''preparing'' then Some OPreparing
      else if st = ''shipped'' then Some OShipped
      else if st = ''delivered'' then Some ODelivered
      else if st = ''refunded'' then Some ORefunded
      else None)"

text \<open>The \<open>trim\<close> setter and the \<open>maxlength: 500\<close> validator of the order's notes.\<close>

definition is_space :: "char \<Rightarrow> bool" where
  "is_space c = (c \<in> set [CHR '' '', CHR 0x09, CHR 0x0A, CHR 0x0B, CHR 0x0C, CHR 0x0D])"

definition trim :: "string \<Rightarrow> string" where
  "trim t = rev (dropWhile is_space (rev (dropWhile is_space t)))"

definition notes_valid :: "string option \<Rightarrow> bool" where
  "notes_valid notes = (case notes of None \<Rightarrow> True | Some t \<Rightarrow> length (trim t) \<le> 500)"

record update_status_request =
  us_errors :: "string list"
  us_user :: "user option"
  us_id :: string
  us_status :: string
  us_notes :: "string option"

text \<open>
  \<open>updateOrderStatus\<close>.  With \<open>runValidators\<close> the update is validated before it is sent,
  so a status outside the schema's enum or over-long notes throw; with \<open>new: true\<close> the
  updated document is what comes back.
\<close>

definition updateOrderStatus :: "update_status_request \<Rightarrow> db \<Rightarrow> response \<times> db" where
  "updateOrderStatus req s =
     (if us_errors req \<noteq> [] then (Response 400 (ErrorsJson (us_errors req)), s)
      else if map_option user_role (us_user req) \<noteq> Some ''admin''
        then (Response 403 (ErrorJson ''Access denied''), s)
      else case order_status_of_string (us_status req) of
        None \<Rightarrow> (Response 500 (ErrorJson ''Failed to update order status''), s)
      | Some status \<Rightarrow>
          if \<not> notes_valid (us_notes req)
            then (Response 500 (ErrorJson ''Failed to update order status''), s)
          else case findOne (\<lambda>d. ord_id d = us_id req) (orders s) of
            None \<Rightarrow> (Response 404 (ErrorJson ''Order not found''), s)
          | Some d \<Rightarrow>
              (Response 200 (OrderJson (d\<lparr>ord_status := status\<rparr>)),
               s\<lparr>orders :=
                    findOneAndUpdate (\<lambda>d. ord_id d = us_id req)
                      (\<lambda>d. d\<lparr>ord_status := status\<rparr>) (orders s)\<rparr>))"

section \<open>Provider access tokens (services/paypal.ts, services/nequi.ts)\<close>

text \<open>
  A \<open>Date\<close> holds a moment at most 8.64e15 milliseconds from the epoch.  \<open>new Date(t)\<close>
  for a number beyond that range, \<open>Infinity\<close> included, or for one that is not a number,
  is an invalid date: it is an object, hence truthy, and compares false with everything.
\<close>

datatype js_date = Date int | InvalidDate

definition new_Date :: "int \<Rightarrow> js_date" where
  "new_Date t = (if \<bar>t\<bar> \<le> 8640000000000000 then Date t else InvalidDate)"

record token_cache =
  accessToken :: "string option"
  tokenExpiry :: "js_date option"

record token_response =
  access_token :: "string option"
  expires_in :: "int option"

definition truthy :: "string option \<Rightarrow> bool" where
  "truthy t = (case t of None \<Rightarrow> False | Some v \<Rightarrow> v \<noteq> [])"

definition date_gt :: "js_date option \<Rightarrow> int \<Rightarrow> bool" where
  "date_gt d now = (case d of Some (Date e) \<Rightarrow> e > now | _ \<Rightarrow> False)"

text \<open>
  \<open>new Date(Date.now() + (response.data.expires_in - 1800) * 1000)\<close>, where \<open>issued\<close> is
  what \<open>Date.now()\<close> returns and \<open>expires_in\<close> a whole number of seconds.  An absent
  \<open>expires_in\<close> makes the sum not a number.
\<close>

definition expiry_of :: "int \<Rightarrow> int option \<Rightarrow> js_date" where
  "expiry_of issued e =
     (case e of
        None \<Rightarrow> InvalidDate
      | Some n \<Rightarrow> new_Date (js_add issued (js_mul (js_sub n 1800) 1000)))"

text \<open>
  \<open>getAccessToken\<close> of the two services, which differ in the request they send only.
  \<open>now\<close> is the clock at the test of the cached token, \<open>issued\<close> the clock when the
  provider's answer is recorded.
\<close>

definition PayPalService_getAccessToken ::
  "token_cache \<Rightarrow> int \<Rightarrow> token_response outcome \<Rightarrow> int \<Rightarrow> string option outcome \<times> token_cache" where
  "PayPalService_getAccessToken this now tokenCall issued =
     (if truthy (accessToken this) \<and> tokenExpiry this \<noteq> None \<and> date_gt (tokenExpiry this) now
        then (Returned (accessToken this), this)
      else case tokenCall of
        Threw \<Rightarrow> (Threw, this)
      | Returned data \<Rightarrow>
          (Returned (access_token data),
           this\<lparr>accessToken := access_token data,
                tokenExpiry := Some (expiry_of issued (expires_in data))\<rparr>))"

definition NequiService_getAccessToken ::
  "token_cache \<Rightarrow> int \<Rightarrow> token_response outcome \<Rightarrow> int \<Rightarrow> string option outcome \<times> token_cache" where
  "NequiService_getAccessToken this now tokenCall issued =
     (if truthy (accessToken this) \<and> tokenExpiry this \<noteq> None \<and> date_gt (tokenExpiry this) now
        then (Returned (accessToken this), this)
      else case tokenCall of
        Threw \<Rightarrow> (Threw, this)
      | Returned data \<Rightarrow>
          (Returned (access_token data),
           this\<lparr>accessToken := access_token data,
                tokenExpiry := Some (expiry_of issued (expires_in data))\<rparr>))"

section \<open>Payment creation, one await at a time\<close>

text \<open>
  \<open>createPayPalPayment\<close> suspends at four awaits: the read of the order, the call to the
  provider, the save of the payment and the update of the order.  Between two of them
  another request can run.  A stage records where a call stands and what it holds in its
  local variables; \<open>createPayPalPayment_step\<close> runs a call from one await to the next.
\<close>

datatype create_stage =
  AtFindOrder
  | AtProvider order
  | AtSave order paypal_payment_data
  | AtLink payment paypal_payment_data
  | Responded response

fun createPayPalPayment_step ::
  "create_payment_request \<Rightarrow> paypal_payment_data outcome \<Rightarrow> string \<Rightarrow> create_stage \<Rightarrow> db
     \<Rightarrow> create_stage \<times> db" where
  "createPayPalPayment_step req paymentData newId AtFindOrder s =
     (if cr_errors req \<noteq> [] then (Responded (Response 400 (ErrorsJson (cr_errors req))), s)
      else case findOne (\<lambda>ord. ord_id ord = cr_order_id req) (orders s) of
        None \<Rightarrow> (Responded (Response 404 (ErrorJson ''Order not found'')), s)
      | Some ord \<Rightarrow>
          if ord_status ord \<noteq> OPending
            then (Responded (Response 400 (ErrorJson ''Order is not in pending status'')), s)
          else if access_denied (cr_user req) ord
            then (Responded (Response 403 (ErrorJson ''Access denied'')), s)
          else (AtProvider ord, s))"
| "createPayPalPayment_step req paymentData newId (AtProvider ord) s =
     (case paymentData of
        Threw \<Rightarrow> (Responded (Response 500 (ErrorJson ''Failed to create PayPal payment'')), s)
      | Returned pd \<Rightarrow> (AtSave ord pd, s))"
| "createPayPalPayment_step req paymentData newId (AtSave ord pd) s =
     (let payment = \<lparr>pay_id = newId,
                     pay_order_id = ord_id ord,
                     pay_provider = PayPal,
                     pay_provider_payment_id = orderID pd,
                     pay_status = PPending,
                     pay_amount_cop = ord_total_cop ord,
                     pay_currency = ord_currency ord,
                     pay_raw_response = NoResponse,
                     pay_confirmed_at = None\<rparr>
      in case Payment_save payment (payments s) of
        Inl e \<Rightarrow> (Responded (Response 500 (ErrorJson ''Failed to create PayPal payment'')), s)
      | Inr ps \<Rightarrow> (AtLink payment pd, s\<lparr>payments := ps\<rparr>))"
| "createPayPalPayment_step req paymentData newId (AtLink payment pd) s =
     (Responded (Response 200 (PayPalCreated (orderID pd) (approvalUrl pd))),
      s\<lparr>orders :=
           findOneAndUpdate (\<lambda>d. ord_id d = cr_order_id req)
             (\<lambda>d. d\<lparr>ord_payment_id := Some (pay_id payment)\<rparr>)
             (orders s)\<rparr>)"
| "createPayPalPayment_step req paymentData newId (Responded r) s = (Responded r, s)"

text \<open>
  Two calls, \<open>A\<close> and \<open>B\<close>, each given by its request, the outcome of its provider call and
  the id it draws.  A schedule says whose turn it is at each step: \<open>True\<close> for \<open>A\<close>.
\<close>

type_synonym create_call = "create_payment_request \<times> paypal_payment_data outcome \<times> string"

fun race ::
  "create_call \<Rightarrow> create_call \<Rightarrow> bool list \<Rightarrow> create_stage \<times> create_stage \<times> db
     \<Rightarrow> create_stage \<times> create_stage \<times> db" where
  "race A B [] c = c"
| "race A B (True # sch) (a, b, s) =
     (case createPayPalPayment_step (fst A) (fst (snd A)) (snd (snd A)) a s of
        (a', s') \<Rightarrow> race A B sch (a', b, s'))"
| "race A B (False # sch) (a, b, s) =
     (case createPayPalPayment_step (fst B) (fst (snd B)) (snd (snd B)) b s of
        (b', s') \<Rightarrow> race A B sch (a, b', s'))"

section \<open>Predicates used in the statements\<close>

text \<open>
  \<open>only_writes st ds ds'\<close>: the collection \<open>ds'\<close> holds the orders of \<open>ds\<close>, in the same
  places and under the same ids, and each either kept its status or now has status \<open>st\<close>.
\<close>

definition only_writes :: "order_status \<Rightarrow> order list \<Rightarrow> order list \<Rightarrow> bool" where
  "only_writes st ds ds' =
     list_all2 (\<lambda>d d'. ord_id d' = ord_id d \<and> (ord_status d' = ord_status d \<or> ord_status d' = st))
       ds ds'"

text \<open>
  \<open>priced_from ps line i\<close>: the order item \<open>i\<close> carries the quantity of the request line
  and the id and price of the active product that the line names in the collection \<open>ps\<close>.
  \<open>items_total\<close> is the sum of price times quantity over a list of order items.
\<close>

definition priced_from :: "product list \<Rightarrow> order_line \<Rightarrow> order_item \<Rightarrow> bool" where
  "priced_from ps line i =
     (item_quantity i = line_quantity line
      \<and> (case findOne (\<lambda>p. prod_id p = line_product_id line \<and> prod_active p) ps of
            None \<Rightarrow> False
          | Some p \<Rightarrow> item_product_id i = prod_id p \<and> item_price_cop i = prod_price_cop p))"

definition items_total :: "order_item list \<Rightarrow> int" where
  "items_total items = sum_list (map (\<lambda>i. item_price_cop i * item_quantity i) items)"

text \<open>
  \<open>running_total sub items\<close>: what the loop of \<open>createOrder\<close> adds up in doubles, starting
  from \<open>sub\<close>.
\<close>

fun running_total :: "int \<Rightarrow> order_item list \<Rightarrow> int" where
  "running_total sub [] = sub"
| "running_total sub (i # rest) =
     running_total (js_add sub (js_mul (item_price_cop i) (item_quantity i))) rest"

text \<open>
  \<open>pending_payment_recorded oid pid ref s\<close>: the store holds a pending payment \<open>pid\<close> for
  the order \<open>oid\<close> that carries the provider's correlation id \<open>ref\<close>, and the order refers
  to it.  \<open>paid_with oid pid s\<close>: the order \<open>oid\<close> is paid and refers to the payment \<open>pid\<close>,
  which is completed and belongs to that order.
\<close>

definition pending_payment_recorded :: "string \<Rightarrow> string \<Rightarrow> string \<Rightarrow> db \<Rightarrow> bool" where
  "pending_payment_recorded oid pid ref s =
     ((case findOne (\<lambda>p. pay_id p = pid) (payments s) of
         None \<Rightarrow> False
       | Some p \<Rightarrow> pay_status p = PPending \<and> pay_provider_payment_id p = Some ref
                   \<and> pay_order_id p = oid)
      \<and> (case findOne (\<lambda>d. ord_id d = oid) (orders s) of
            None \<Rightarrow> False
          | Some d \<Rightarrow> ord_payment_id d = Some pid))"

definition paid_with :: "string \<Rightarrow> string \<Rightarrow> db \<Rightarrow> bool" where
  "paid_with oid pid s =
     ((case findOne (\<lambda>d. ord_id d = oid) (orders s) of
         None \<Rightarrow> False
       | Some d \<Rightarrow> ord_status d = OPaid \<and> ord_payment_id d = Some pid)
      \<and> (case findOne (\<lambda>p. pay_id p = pid) (payments s) of
            None \<Rightarrow> False
          | Some p \<Rightarrow> pay_status p = PCompleted \<and> pay_order_id p = oid))"

text \<open>
  Repeated delivery of one webhook body.  Each PayPal delivery comes with its own
  signature header and arrives at its own moment; each Nequi delivery with its own
  signature and timestamp headers.
\<close>

fun deliver_paypal ::
  "string option \<Rightarrow> paypal_body \<Rightarrow> (string option \<times> int) list \<Rightarrow> db \<Rightarrow> db" where
  "deliver_paypal webhookId body [] s = s"
| "deliver_paypal webhookId body ((sg, now) # rest) s =
     deliver_paypal webhookId body rest
       (snd (paypal_webhook webhookId \<lparr>pp_signature = sg, pp_body = body\<rparr> now s))"

fun deliver_nequi ::
  "nequi_crypto \<Rightarrow> nequi_body \<Rightarrow> (string option \<times> string option \<times> int) list \<Rightarrow> db \<Rightarrow> db" where
  "deliver_nequi cr body [] s = s"
| "deliver_nequi cr body ((sg, ts, now) # rest) s =
     deliver_nequi cr body rest
       (snd (nequi_webhook cr \<lparr>nq_signature = sg, nq_timestamp = ts, nq_body = body\<rparr> now s))"

definition paypal_verified :: "string option \<Rightarrow> paypal_body \<Rightarrow> string option \<times> int \<Rightarrow> bool" where
  "paypal_verified webhookId body d =
     paypal_verifyWebhookSignature body (fst d) webhookId (snd d)"

definition nequi_verified ::
  "nequi_crypto \<Rightarrow> nequi_body \<Rightarrow> string option \<times> string option \<times> int \<Rightarrow> bool" where
  "nequi_verified cr body d =
     nequi_verifyWebhookSignature cr body (fst d) (fst (snd d))"

text \<open>
  \<open>payments_of oid s\<close>: the payment rows of the order \<open>oid\<close>.  A payment that is pending
  or completed can still change status; one that is failed, cancelled or refunded cannot.
\<close>

definition payments_of :: "string \<Rightarrow> db \<Rightarrow> payment list" where
  "payments_of oid s = filter (\<lambda>p. pay_order_id p = oid) (payments s)"

definition non_terminal :: "payment_status \<Rightarrow> bool" where
  "non_terminal st = (st = PPending \<or> st = PCompleted)"

section \<open>Sample documents and requests\<close>

text \<open>Concrete values at which the theorems below are instantiated.\<close>

definition ex_order :: order where
  "ex_order = \<lparr>ord_id = ''ORD_1'', ord_user_id = None,
      ord_items = [\<lparr>item_product_id = ''P1'', item_title = ''Plan'', item_price_cop = 50000,
                    item_quantity = 2, item_sku = ''SKU1''\<rparr>],
      ord_subtotal_cop = 100000, ord_tax_cop = 19000, ord_total_cop = 119000,
      ord_currency = ''COP'', ord_status = OPending, ord_payment_provider = PayPal,
      ord_payment_id = Some ''PAY_1'', ord_payment_status = PPending, ord_paid_at = None\<rparr>"

definition ex_payment :: payment where
  "ex_payment = \<lparr>pay_id = ''PAY_1'', pay_order_id = ''ORD_1'', pay_provider = PayPal,
      pay_provider_payment_id = Some ''PP-1'', pay_status = PPending,
      pay_amount_cop = 119000, pay_currency = ''COP'', pay_raw_response = NoResponse,
      pay_confirmed_at = None\<rparr>"

definition ex_db :: db where
  "ex_db = \<lparr>payments = [ex_payment], orders = [ex_order], products = []\<rparr>"

definition ex_resource :: paypal_resource where
  "ex_resource = \<lparr>res_id = Some ''PP-1'', res_fields = ''{}''\<rparr>"

definition ex_forged :: paypal_request where
  "ex_forged = \<lparr>pp_signature = Some ''forged'',
      pp_body = \<lparr>event_type = Some ''PAYMENT.CAPTURE.COMPLETED'', resource = Some ex_resource\<rparr>\<rparr>"

definition ex_crypto :: nequi_crypto where
  "ex_crypto = \<lparr>hmac_sha256_hex = (\<lambda>k d. k @ '':'' @ d), JSON_stringify = nq_fields,
      NEQUI_WEBHOOK_SECRET = None\<rparr>"

definition ex_nequi_forged :: nequi_request where
  "ex_nequi_forged = \<lparr>nq_signature = None, nq_timestamp = Some ''1700000000'',
      nq_body = \<lparr>eventType = Some ''PAYMENT_COMPLETED'', paymentId = Some ''PP-1'',
                 nq_status = Some ''COMPLETED'', nq_fields = ''{}''\<rparr>\<rparr>"

definition ex_now :: int where
  "ex_now = 1700000000000"

definition ex_paid_db :: db where
  "ex_paid_db =
     \<lparr>payments = [ex_payment\<lparr>pay_status := PCompleted, pay_confirmed_at := Some 1699999990000\<rparr>],
      orders = [ex_order\<lparr>ord_status := OPaid, ord_payment_status := PCompleted,
                         ord_paid_at := Some 1699999990000\<rparr>],
      products = []\<rparr>"

definition ex_refunded_db :: db where
  "ex_refunded_db =
     \<lparr>payments = [ex_payment\<lparr>pay_status := PRefunded, pay_confirmed_at := Some 1699999990000\<rparr>],
      orders = [ex_order\<lparr>ord_status := ORefunded, ord_payment_status := PCompleted,
                         ord_paid_at := Some 1699999990000\<rparr>],
      products = []\<rparr>"

definition ex_denied :: paypal_request where
  "ex_denied = \<lparr>pp_signature = Some ''placeholder-signature-1700000000000'',
      pp_body = \<lparr>event_type = Some ''PAYMENT.CAPTURE.DENIED'', resource = Some ex_resource\<rparr>\<rparr>"

definition ex_completed :: paypal_request where
  "ex_completed = \<lparr>pp_signature = Some ''placeholder-signature-1700000000000'',
      pp_body = \<lparr>event_type = Some ''PAYMENT.CAPTURE.COMPLETED'', resource = Some ex_resource\<rparr>\<rparr>"

definition ex_admin :: user where
  "ex_admin = \<lparr>userId = ''USR_ADMIN'', user_role = ''admin''\<rparr>"

definition ex_update_req :: update_status_request where
  "ex_update_req = \<lparr>us_errors = [], us_user = Some ex_admin, us_id = ''ORD_1'',
      us_status = ''pending'', us_notes = None\<rparr>"

definition ex_refund_req :: refund_request where
  "ex_refund_req = \<lparr>rf_errors = [], rf_user = Some ex_admin, rf_payment_id = ''PAY_1''\<rparr>"

definition ex_create_req :: create_payment_request where
  "ex_create_req = \<lparr>cr_errors = [], cr_user = None, cr_order_id = ''ORD_1''\<rparr>"

definition ex_paypal_data :: paypal_payment_data where
  "ex_paypal_data = \<lparr>orderID = Some ''PP-2'', approvalUrl = Some ''https://paypal.test/approve/PP-2''\<rparr>"

definition ex_capture_req :: capture_request where
  "ex_capture_req = \<lparr>cap_errors = [], cap_orderId = ''PP-1''\<rparr>"

definition ex_capture_data :: capture_data where
  "ex_capture_data = \<lparr>cap_status = Some ''COMPLETED'', cap_fields = ''{}''\<rparr>"

definition ex_failed_db :: db where
  "ex_failed_db =
     \<lparr>payments = [ex_payment\<lparr>pay_status := PFailed\<rparr>],
      orders = [ex_order\<lparr>ord_status := OCancelled, ord_payment_status := PFailed\<rparr>],
      products = []\<rparr>"

definition ex_cache :: token_cache where
  "ex_cache = \<lparr>accessToken = Some ''A21AAFs9'',
      tokenExpiry = Some (expiry_of 1700000000000 (Some 32400))\<rparr>"

definition ex_token_response :: token_response where
  "ex_token_response = \<lparr>access_token = Some ''A21AAGk2'', expires_in = Some 32400\<rparr>"

definition ex_product :: product where
  "ex_product = \<lparr>prod_id = ''P1'', prod_title = ''Plan'', prod_price_cop = 50000,
      prod_inventory = Some 10, prod_sku = ''SKU1'', prod_active = True\<rparr>"

definition ex_shop :: db where
  "ex_shop = \<lparr>payments = [], orders = [], products = [ex_product]\<rparr>"

definition ex_order_req :: create_order_request where
  "ex_order_req = \<lparr>co_errors = [], co_user = None,
      co_items = [\<lparr>line_product_id = ''P1'', line_quantity = 2, line_price_cop = Some 1\<rparr>],
      co_payment_method = ''paypal''\<rparr>"

definition ex_open_db :: db where
  "ex_open_db = \<lparr>payments = [], orders = [ex_order\<lparr>ord_payment_id := None\<rparr>], products = []\<rparr>"

definition ex_paypal_accepted :: paypal_payment_data where
  "ex_paypal_accepted =
     \<lparr>orderID = Some ''PP-1'', approvalUrl = Some ''https://paypal.test/approve/PP-1''\<rparr>"

definition ex_nequi_accepted :: nequi_payment_data where
  "ex_nequi_accepted = \<lparr>np_paymentId = Some ''PP-1'', qrImage = None, redirectUrl = None\<rparr>"

definition ex_nequi_completed :: nequi_request where
  "ex_nequi_completed = \<lparr>nq_signature = Some ''fallback-secret:{}1700000000'',
      nq_timestamp = Some ''1700000000'',
      nq_body = \<lparr>eventType = Some ''PAYMENT_COMPLETED'', paymentId = Some ''PP-1'',
                 nq_status = Some ''COMPLETED'', nq_fields = ''{}''\<rparr>\<rparr>"

definition ex_second_payment :: payment where
  "ex_second_payment = ex_payment\<lparr>pay_id := ''PAY_2'', pay_provider_payment_id := Some ''PP-2''\<rparr>"

definition ex_nequi_payment :: payment where
  "ex_nequi_payment = \<lparr>pay_id = ''PAY_0'', pay_order_id = ''ORD_0'', pay_provider = Nequi,
      pay_provider_payment_id = Some ''PP-1'', pay_status = PPending,
      pay_amount_cop = 119000, pay_currency = ''COP'', pay_raw_response = NoResponse,
      pay_confirmed_at = None\<rparr>"

definition ex_shared_ref_db :: db where
  "ex_shared_ref_db =
     \<lparr>payments = [ex_nequi_payment],
      orders = [ex_order\<lparr>ord_id := ''ORD_0'', ord_payment_provider := Nequi,
                         ord_payment_id := Some ''PAY_0''\<rparr>,
                ex_order\<lparr>ord_payment_id := None\<rparr>],
      products = []\<rparr>"

definition ex_no_token :: token_cache where
  "ex_no_token = \<lparr>accessToken = None, tokenExpiry = None\<rparr>"

definition ex_far_response :: token_response where
  "ex_far_response = \<lparr>access_token = Some ''A21AAFs9'', expires_in = Some 10000000000000\<rparr>"

definition ex_big_product :: product where
  "ex_big_product = \<lparr>prod_id = ''P2'', prod_title = ''Estate'', prod_price_cop = 9007199254740991,
      prod_inventory = Some 10, prod_sku = ''SKU2'', prod_active = True\<rparr>"

definition ex_big_shop :: db where
  "ex_big_shop = \<lparr>payments = [], orders = [], products = [ex_big_product]\<rparr>"

definition ex_big_order_req :: create_order_request where
  "ex_big_order_req = \<lparr>co_errors = [], co_user = None,
      co_items = [\<lparr>line_product_id = ''P2'', line_quantity = 3, line_price_cop = None\<rparr>],
      co_payment_method = ''paypal''\<rparr>"

definition ex_big_order :: order where
  "ex_big_order = \<lparr>ord_id = ''ORD_9'', ord_user_id = None,
      ord_items = [\<lparr>item_product_id = ''P2'', item_title = ''Estate'',
                    item_price_cop = 9007199254740991, item_quantity = 3, item_sku = ''SKU2''\<rparr>],
      ord_subtotal_cop = 27021597764222972, ord_tax_cop = 5134103575202365,
      ord_total_cop = 32155701339425336,
      ord_currency = ''COP'', ord_status = OPending, ord_payment_provider = PayPal,
      ord_payment_id = None, ord_payment_status = PPending, ord_paid_at = None\<rparr>"

section \<open>Properties\<close>

subsection \<open>The store operations\<close>

lemma findOne_SomeD: "findOne q xs = Some x \<Longrightarrow> x \<in> set xs \<and> q x"
  by (auto simp: findOne_def find_Some_iff)

lemma map_findOneAndUpdate:
  "(\<And>x. f (u x) = f x) \<Longrightarrow> map f (findOneAndUpdate q u xs) = map f xs"
  by (induction xs) auto

lemma length_findOneAndUpdate [simp]: "length (findOneAndUpdate q u xs) = length xs"
  by (induction xs) auto

lemma findOne_findOneAndUpdate_same:
  "findOne q xs = Some x \<Longrightarrow> q (u x) \<Longrightarrow> findOne q (findOneAndUpdate q u xs) = Some (u x)"
  by (induction xs) (auto simp: findOne_def)

lemma findOne_update_by_key:
  assumes "distinct (map key xs)" and "findOne q xs = Some y"
    and "\<And>x. q (u x) = q x" and "\<And>x. key (u x) = key x"
  shows "findOne q (findOneAndUpdate (\<lambda>x. key x = key y) u xs) = Some (u y)"
  using assms(1,2)
proof (induction xs)
  case Nil
  then show ?case by (simp add: findOne_def)
next
  case (Cons x xs)
  show ?case
  proof (cases "q x")
    case True
    with Cons.prems have "y = x" by (simp add: findOne_def)
    with True assms(3) show ?thesis by (simp add: findOne_def)
  next
    case False
    with Cons.prems have y: "findOne q xs = Some y" by (simp add: findOne_def)
    then have "y \<in> set xs" using findOne_SomeD by fastforce
    with Cons.prems(1) have "key x \<noteq> key y" by auto
    with False assms(3) Cons.IH Cons.prems(1) y show ?thesis by (simp add: findOne_def)
  qed
qed

lemma findOneAndUpdate_idem:
  "(\<And>x. q (u x) = q x) \<Longrightarrow> (\<And>x. u (u x) = u x) \<Longrightarrow>
     findOneAndUpdate q u (findOneAndUpdate q u xs) = findOneAndUpdate q u xs"
  by (induction xs) auto

lemma findOne_None_iff: "findOne q xs = None \<longleftrightarrow> (\<forall>x\<in>set xs. \<not> q x)"
  by (auto simp: findOne_def find_None_iff)

lemma findOne_append_fresh:
  "findOne q xs = None \<Longrightarrow> q y \<Longrightarrow> findOne q (xs @ [y]) = Some y"
  by (induction xs) (auto simp: findOne_def split: if_splits)

lemma findOneAndUpdate_append_fresh:
  "findOne q xs = None \<Longrightarrow> q y \<Longrightarrow> findOneAndUpdate q u (xs @ [y]) = xs @ [u y]"
  by (induction xs) (auto simp: findOne_def split: if_splits)

subsection \<open>The sample requests\<close>

lemma digits_lt: "n < 10 \<Longrightarrow> digits n = [''0123456789'' ! n]"
  by (simp add: digits.simps)

lemma digits_ge: "10 \<le> n \<Longrightarrow> digits n = digits (n div 10) @ [''0123456789'' ! (n mod 10)]"
  by (subst digits.simps) simp

lemma ex_now_toString: "number_toString ex_now = ''1700000000000''"
  by (simp add: ex_now_def number_toString_def digits_lt digits_ge)

lemma ex_denied_verifies:
  "paypal_verifyWebhookSignature (pp_body ex_denied) (pp_signature ex_denied) None ex_now"
  by (simp add: paypal_verifyWebhookSignature_def paypal_generateWebhookSignature_def
      ex_now_toString ex_denied_def)

lemma ex_completed_verifies:
  "paypal_verifyWebhookSignature (pp_body ex_completed) (pp_signature ex_completed) None ex_now"
  by (simp add: paypal_verifyWebhookSignature_def paypal_generateWebhookSignature_def
      ex_now_toString ex_completed_def)

lemma ex_nequi_completed_verifies:
  "nequi_verifyWebhookSignature ex_crypto (nq_body ex_nequi_completed)
     (nq_signature ex_nequi_completed) (nq_timestamp ex_nequi_completed)"
  by (simp add: nequi_verifyWebhookSignature_def nequi_generateWebhookSignature_def
      ex_crypto_def ex_nequi_completed_def)

lemmas ex_defs = ex_db_def ex_paid_db_def ex_refunded_db_def ex_failed_db_def ex_payment_def
  ex_order_def ex_resource_def ex_denied_def ex_completed_def ex_admin_def ex_update_req_def
  ex_refund_req_def ex_create_req_def ex_paypal_data_def ex_capture_req_def ex_capture_data_def

subsection \<open>Rounding to 53 significant bits\<close>

lemma round_multiple_ge: "0 < u \<Longrightarrow> (P div u) * u \<le> round_multiple u P"
  by (simp add: round_multiple_def Let_def)

lemma round_multiple_le: "0 < u \<Longrightarrow> round_multiple u P \<le> (P div u + 1) * u"
  by (simp add: round_multiple_def Let_def)

lemma round_multiple_exact: "0 < u \<Longrightarrow> P mod u = 0 \<Longrightarrow> round_multiple u P = P"
  by (auto simp: round_multiple_def Let_def)

lemma multiple_le_div:
  fixes a u P :: int
  assumes "0 < u" and "a * u \<le> P"
  shows "a \<le> P div u"
proof -
  from assms have "(a * u) div u \<le> P div u" by (intro zdiv_mono1) simp_all
  with assms(1) show ?thesis by simp
qed

lemma div_less_multiple:
  fixes a u P :: int
  assumes "0 < u" and "P \<le> a * u" and "P mod u \<noteq> 0"
  shows "P div u + 1 \<le> a"
proof -
  have "0 \<le> P mod u" using assms(1) by simp
  with assms(3) have "0 < P mod u" by simp
  moreover have "P = (P div u) * u + P mod u" by simp
  ultimately have "(P div u) * u < a * u" using assms(2) by linarith
  with assms(1) have "P div u < a" by (simp add: mult_less_cancel_right)
  then show ?thesis by simp
qed

lemma round_to_53_bounds:
  assumes P: "0 < P" and k: "0 < bitlen P - 53"
  shows "2 ^ 52 * 2 ^ nat (bitlen P - 53) \<le> P"
proof -
  have "nat (bitlen P - 1) = 52 + nat (bitlen P - 53)" using k by simp
  with bitlen_bounds [OF P] have "(2::int) ^ (52 + nat (bitlen P - 53)) \<le> P" by simp
  then show ?thesis by (simp add: power_add)
qed

lemma small_below_binade:
  fixes m :: int
  assumes m: "m \<le> 2 ^ 53" and j: "j < n"
  shows "m * 2 ^ j \<le> 2 ^ 52 * 2 ^ n"
proof -
  from j have "Suc j \<le> n" by simp
  then have "(2::int) ^ Suc j \<le> 2 ^ n" by (intro power_increasing) simp_all
  then have u: "(2::int) * 2 ^ j \<le> 2 ^ n" by simp
  have "m * 2 ^ j \<le> 2 ^ 53 * 2 ^ j" using m by (simp add: mult_right_mono)
  also have "\<dots> = 2 ^ 52 * (2 * 2 ^ j)" by simp
  also have "\<dots> \<le> 2 ^ 52 * 2 ^ n" using u by (intro mult_left_mono) simp_all
  finally show ?thesis .
qed

lemma round_to_53_lower:
  assumes P: "0 < P" and m: "m < 2 ^ 53" and le: "m * 2 ^ j \<le> P"
  shows "m * 2 ^ j \<le> round_to_53 P"
proof (cases "bitlen P - 53 \<le> 0")
  case True
  with P le show ?thesis by (simp add: round_to_53_def)
next
  case False
  then have k: "0 < bitlen P - 53" by simp
  define n where "n = nat (bitlen P - 53)"
  define u :: int where "u = 2 ^ n"
  have u: "0 < u" by (simp add: u_def)
  have big: "2 ^ 52 * u \<le> P"
    using round_to_53_bounds [OF P k] by (simp add: u_def n_def)
  have "m * 2 ^ j \<le> (P div u) * u"
  proof (cases "n \<le> j")
    case True
    then have e: "(2::int) ^ j = 2 ^ (j - n) * u"
      by (simp add: u_def flip: power_add)
    with le have "(m * 2 ^ (j - n)) * u \<le> P" by (simp add: mult.assoc)
    from multiple_le_div [OF u this] have "(m * 2 ^ (j - n)) * u \<le> (P div u) * u"
      using u by (simp add: mult_right_mono)
    with e show ?thesis by (simp add: mult.assoc)
  next
    case False
    then have "j < n" by simp
    from small_below_binade [OF _ this, of m] m
    have a: "m * 2 ^ j \<le> 2 ^ 52 * u" by (simp add: u_def)
    from multiple_le_div [OF u big] have "2 ^ 52 * u \<le> (P div u) * u"
      using u by (simp add: mult_right_mono)
    with a show ?thesis by linarith
  qed
  also have "\<dots> \<le> round_multiple u P" using u by (rule round_multiple_ge)
  also have "\<dots> = round_to_53 P" using P False by (simp add: round_to_53_def u_def n_def)
  finally show ?thesis .
qed

lemma round_to_53_upper:
  assumes P: "0 < P" and m: "m < 2 ^ 53" and le: "P \<le> m * 2 ^ j"
  shows "round_to_53 P \<le> m * 2 ^ j"
proof (cases "bitlen P - 53 \<le> 0")
  case True
  with P le show ?thesis by (simp add: round_to_53_def)
next
  case False
  then have k: "0 < bitlen P - 53" by simp
  define n where "n = nat (bitlen P - 53)"
  define u :: int where "u = 2 ^ n"
  have u: "0 < u" by (simp add: u_def)
  have r: "round_to_53 P = round_multiple u P"
    using P False by (simp add: round_to_53_def u_def n_def)
  have big: "2 ^ 52 * u \<le> P"
    using round_to_53_bounds [OF P k] by (simp add: u_def n_def)
  have nj: "n \<le> j"
  proof (rule ccontr)
    assume "\<not> n \<le> j"
    then have "j < n" by simp
    from small_below_binade [OF _ this, of "m + 1"] m
    have "(m + 1) * 2 ^ j \<le> 2 ^ 52 * u" by (simp add: u_def)
    moreover have "m * 2 ^ j < (m + 1) * 2 ^ j" by (simp add: distrib_right)
    ultimately show False using big le by linarith
  qed
  then have e: "(2::int) ^ j = 2 ^ (j - n) * u"
    by (simp add: u_def flip: power_add)
  show ?thesis
  proof (cases "P mod u = 0")
    case True
    with u le r show ?thesis by (simp add: round_multiple_exact)
  next
    case False
    from le e have "P \<le> (m * 2 ^ (j - n)) * u" by (simp add: mult.assoc)
    from div_less_multiple [OF u this False]
    have "(P div u + 1) * u \<le> (m * 2 ^ (j - n)) * u"
      using u by (simp add: mult_right_mono)
    with round_multiple_le [OF u, of P] r e show ?thesis by (simp add: mult.assoc)
  qed
qed

lemma round_to_53_small: "\<bar>P\<bar> < 2 ^ 53 \<Longrightarrow> round_to_53 P = P"
  by (simp add: round_to_53_def bitlen_le_iff_power)

lemma round_to_53_multiple:
  assumes d: "2 ^ j dvd P" and b: "\<bar>P\<bar> < 2 ^ (53 + j)"
  shows "round_to_53 P = P"
proof (cases "bitlen \<bar>P\<bar> - 53 \<le> 0")
  case True
  then show ?thesis by (simp add: round_to_53_def)
next
  case False
  from b have "bitlen \<bar>P\<bar> \<le> int (53 + j)"
    by (simp add: bitlen_le_iff_power nat_add_distrib)
  with False have kj: "nat (bitlen \<bar>P\<bar> - 53) \<le> j" by simp
  then have "(2::int) ^ nat (bitlen \<bar>P\<bar> - 53) dvd 2 ^ j" by (rule le_imp_power_dvd)
  then have "(2::int) ^ nat (bitlen \<bar>P\<bar> - 53) dvd P" using d by (rule dvd_trans)
  then have "P mod 2 ^ nat (bitlen \<bar>P\<bar> - 53) = 0" by simp
  with False show ?thesis by (simp add: round_to_53_def round_multiple_exact)
qed

lemma round_multiple_uminus:
  assumes "0 < u"
  shows "round_multiple u (- P) = - round_multiple u P"
proof (cases "P mod u = 0")
  case True
  with assms show ?thesis
    by (simp add: round_multiple_def Let_def zdiv_zminus1_eq_if zmod_zminus1_eq_if)
next
  case False
  with assms show ?thesis
    by (auto simp: round_multiple_def Let_def zdiv_zminus1_eq_if zmod_zminus1_eq_if algebra_simps)
qed

lemma round_to_53_uminus: "round_to_53 (- P) = - round_to_53 P"
  by (simp add: round_to_53_def Let_def round_multiple_uminus)

lemma round_to_53_ge:
  assumes "m < 2 ^ 53" and "0 < m" and "m * 2 ^ j \<le> P"
  shows "m * 2 ^ j \<le> round_to_53 P"
proof -
  from assms have "0 < m * 2 ^ j" by simp
  with assms(3) have "0 < P" by linarith
  from round_to_53_lower [OF this assms(1,3)] show ?thesis .
qed

lemma round_to_53_le:
  assumes "m < 2 ^ 53" and "0 < m" and "P \<le> - (m * 2 ^ j)"
  shows "round_to_53 P \<le> - (m * 2 ^ j)"
proof -
  from assms(3) have "m * 2 ^ j \<le> - P" by simp
  from round_to_53_ge [OF assms(1,2) this] show ?thesis by (simp add: round_to_53_uminus)
qed

subsection \<open>Webhooks with a bad signature\<close>

text \<open>
  C3.  A webhook whose signature fails verification, on either route, is answered 400
  with the error \<open>Invalid signature\<close>, which is not a 2xx answer, and the store that
  comes back is the store that went in: no Payment and no Order is touched, whatever the
  body claims.
\<close>

theorem bad_signature_rejected:
  "(\<not> paypal_verifyWebhookSignature (pp_body preq) (pp_signature preq) webhookId now \<longrightarrow>
      paypal_webhook webhookId preq now s = (Response 400 (ErrorJson ''Invalid signature''), s))
   \<and> (\<not> nequi_verifyWebhookSignature cr (nq_body nreq) (nq_signature nreq) (nq_timestamp nreq) \<longrightarrow>
      nequi_webhook cr nreq now s = (Response 400 (ErrorJson ''Invalid signature''), s))
   \<and> \<not> is_2xx (Response 400 (ErrorJson ''Invalid signature''))"
  by (simp add: paypal_webhook_def nequi_webhook_def is_2xx_def)

theorem bad_signature_rejected_witness:
  "\<not> paypal_verifyWebhookSignature (pp_body ex_forged) (pp_signature ex_forged) None 5
   \<and> paypal_webhook None ex_forged 5 ex_db = (Response 400 (ErrorJson ''Invalid signature''), ex_db)
   \<and> map pay_status (payments ex_db) = [PPending]
   \<and> \<not> nequi_verifyWebhookSignature ex_crypto (nq_body ex_nequi_forged)
         (nq_signature ex_nequi_forged) (nq_timestamp ex_nequi_forged)
   \<and> nequi_webhook ex_crypto ex_nequi_forged 5 ex_db
       = (Response 400 (ErrorJson ''Invalid signature''), ex_db)"
  using bad_signature_rejected [of ex_forged None 5 ex_db ex_crypto ex_nequi_forged]
  by (simp add: paypal_verifyWebhookSignature_def paypal_generateWebhookSignature_def
      nequi_verifyWebhookSignature_def ex_forged_def ex_nequi_forged_def ex_db_def ex_payment_def)

subsection \<open>Payment statuses\<close>

text \<open>
  The completion handlers of the webhooks test that the payment is pending: with distinct
  payment ids they change no payment's status except from pending to completed.
\<close>

lemma update_by_key_touches_one:
  assumes "distinct (map key xs)" and "y \<in> set xs"
  shows "list_all2 (\<lambda>x x'. x' = x \<or> (x = y \<and> x' = u y)) xs
           (findOneAndUpdate (\<lambda>x. key x = key y) u xs)"
  using assms
proof (induction xs)
  case Nil
  then show ?case by simp
next
  case (Cons x xs)
  show ?case
  proof (cases "key x = key y")
    case True
    with Cons.prems have "y = x" by (auto simp: image_iff)
    with True show ?thesis by (simp add: list_all2_refl)
  next
    case False
    with Cons.prems have "y \<in> set xs" by auto
    with Cons False show ?thesis by simp
  qed
qed

lemma completed_paypal_from_pending_only:
  assumes "distinct (map pay_id (payments s))"
  shows "list_all2 (\<lambda>p p'. pay_status p' = pay_status p
                      \<or> (pay_status p = PPending \<and> pay_status p' = PCompleted))
           (payments s) (payments (handlePayPalPaymentCompleted res now s))"
proof (cases "findOne (\<lambda>p. pay_provider_payment_id p = res_id res) (payments s)")
  case None
  then show ?thesis by (simp add: handlePayPalPaymentCompleted_def Let_def list_all2_refl)
next
  case (Some p)
  show ?thesis
  proof (cases "pay_status p = PPending")
    case False
    with Some show ?thesis by (simp add: handlePayPalPaymentCompleted_def Let_def list_all2_refl)
  next
    case True
    from Some have "p \<in> set (payments s)" using findOne_SomeD by fastforce
    note one = update_by_key_touches_one [OF assms this,
        of "\<lambda>p. p\<lparr>pay_status := PCompleted, pay_raw_response := FromResource res,
                    pay_confirmed_at := Some now\<rparr>"]
    have "list_all2 (\<lambda>x x'. pay_status x' = pay_status x
                      \<or> (pay_status x = PPending \<and> pay_status x' = PCompleted))
           (payments s)
           (findOneAndUpdate (\<lambda>x. pay_id x = pay_id p)
              (\<lambda>p. p\<lparr>pay_status := PCompleted, pay_raw_response := FromResource res,
                      pay_confirmed_at := Some now\<rparr>) (payments s))"
      by (rule list_all2_mono [OF one]) (use True in auto)
    with Some True show ?thesis by (simp add: handlePayPalPaymentCompleted_def Let_def)
  qed
qed

lemma completed_nequi_from_pending_only:
  assumes "distinct (map pay_id (payments s))"
  shows "list_all2 (\<lambda>p p'. pay_status p' = pay_status p
                      \<or> (pay_status p = PPending \<and> pay_status p' = PCompleted))
           (payments s) (payments (handleNequiPaymentCompleted pid body now s))"
proof (cases "findOne (\<lambda>p. pay_provider_payment_id p = pid) (payments s)")
  case None
  then show ?thesis by (simp add: handleNequiPaymentCompleted_def list_all2_refl)
next
  case (Some p)
  show ?thesis
  proof (cases "pay_status p = PPending")
    case False
    with Some show ?thesis by (simp add: handleNequiPaymentCompleted_def list_all2_refl)
  next
    case True
    from Some have "p \<in> set (payments s)" using findOne_SomeD by fastforce
    note one = update_by_key_touches_one [OF assms this,
        of "\<lambda>p. p\<lparr>pay_status := PCompleted, pay_raw_response := FromWebhook body,
                    pay_confirmed_at := Some now\<rparr>"]
    have "list_all2 (\<lambda>x x'. pay_status x' = pay_status x
                      \<or> (pay_status x = PPending \<and> pay_status x' = PCompleted))
           (payments s)
           (findOneAndUpdate (\<lambda>x. pay_id x = pay_id p)
              (\<lambda>p. p\<lparr>pay_status := PCompleted, pay_raw_response := FromWebhook body,
                      pay_confirmed_at := Some now\<rparr>) (payments s))"
      by (rule list_all2_mono [OF one]) (use True in auto)
    with Some True show ?thesis by (simp add: handleNequiPaymentCompleted_def)
  qed
qed

text \<open>
  C1.  The code takes both edges the claim excludes.  A verified DENIED webhook for a
  payment that is already completed sets it to failed (the failure handlers do not test
  the payment's status, as the completion handlers do), and a capture that the provider
  reports COMPLETED sets a failed payment to completed.
\<close>

theorem illegal_payment_edges_taken:
  "map pay_status (payments ex_paid_db) = [PCompleted]
   \<and> fst (paypal_webhook None ex_denied ex_now ex_paid_db) = Response 200 Received
   \<and> map pay_status (payments (snd (paypal_webhook None ex_denied ex_now ex_paid_db))) = [PFailed]
   \<and> map pay_status (payments ex_failed_db) = [PFailed]
   \<and> fst (capturePayPalPayment ex_capture_req (Returned ex_capture_data) ex_now ex_failed_db)
       = Response 200 (CaptureJson ex_capture_data)
   \<and> map pay_status (payments (snd (capturePayPalPayment ex_capture_req
         (Returned ex_capture_data) ex_now ex_failed_db))) = [PCompleted]"
  using ex_denied_verifies
  by (simp add: paypal_webhook_def handlePayPalPaymentFailed_def capturePayPalPayment_def
      findOne_def Let_def ex_defs)

subsection \<open>Repeated delivery of a webhook\<close>

lemma completed_paypal_twice:
  assumes "distinct (map pay_id (payments s))"
  shows "handlePayPalPaymentCompleted res t2 (handlePayPalPaymentCompleted res t1 s)
         = handlePayPalPaymentCompleted res t1 s"
proof (cases "findOne (\<lambda>p. pay_provider_payment_id p = res_id res) (payments s)")
  case None
  then show ?thesis by (simp add: handlePayPalPaymentCompleted_def Let_def)
next
  case (Some p)
  show ?thesis
  proof (cases "pay_status p = PPending")
    case False
    with Some show ?thesis by (simp add: handlePayPalPaymentCompleted_def Let_def)
  next
    case True
    have "findOne (\<lambda>p. pay_provider_payment_id p = res_id res)
            (findOneAndUpdate (\<lambda>x. pay_id x = pay_id p)
               (\<lambda>p. p\<lparr>pay_status := PCompleted, pay_raw_response := FromResource res,
                       pay_confirmed_at := Some t1\<rparr>) (payments s))
          = Some (p\<lparr>pay_status := PCompleted, pay_raw_response := FromResource res,
                       pay_confirmed_at := Some t1\<rparr>)"
      using assms Some by (intro findOne_update_by_key) simp_all
    with Some True show ?thesis by (simp add: handlePayPalPaymentCompleted_def Let_def)
  qed
qed

lemma completed_nequi_twice:
  assumes "distinct (map pay_id (payments s))"
  shows "handleNequiPaymentCompleted pid body t2 (handleNequiPaymentCompleted pid body t1 s)
         = handleNequiPaymentCompleted pid body t1 s"
proof (cases "findOne (\<lambda>p. pay_provider_payment_id p = pid) (payments s)")
  case None
  then show ?thesis by (simp add: handleNequiPaymentCompleted_def)
next
  case (Some p)
  show ?thesis
  proof (cases "pay_status p = PPending")
    case False
    with Some show ?thesis by (simp add: handleNequiPaymentCompleted_def)
  next
    case True
    have "findOne (\<lambda>p. pay_provider_payment_id p = pid)
            (findOneAndUpdate (\<lambda>x. pay_id x = pay_id p)
               (\<lambda>p. p\<lparr>pay_status := PCompleted, pay_raw_response := FromWebhook body,
                       pay_confirmed_at := Some t1\<rparr>) (payments s))
          = Some (p\<lparr>pay_status := PCompleted, pay_raw_response := FromWebhook body,
                       pay_confirmed_at := Some t1\<rparr>)"
      using assms Some by (intro findOne_update_by_key) simp_all
    with Some True show ?thesis by (simp add: handleNequiPaymentCompleted_def)
  qed
qed

lemma failed_paypal_twice:
  assumes "distinct (map pay_id (payments s))"
  shows "handlePayPalPaymentFailed res (handlePayPalPaymentFailed res s)
         = handlePayPalPaymentFailed res s"
proof (cases "findOne (\<lambda>p. pay_provider_payment_id p = res_id res) (payments s)")
  case None
  then show ?thesis by (simp add: handlePayPalPaymentFailed_def Let_def)
next
  case (Some p)
  have "findOne (\<lambda>p. pay_provider_payment_id p = res_id res)
          (findOneAndUpdate (\<lambda>x. pay_id x = pay_id p)
             (\<lambda>p. p\<lparr>pay_status := PFailed, pay_raw_response := FromResource res\<rparr>) (payments s))
        = Some (p\<lparr>pay_status := PFailed, pay_raw_response := FromResource res\<rparr>)"
    using assms Some by (intro findOne_update_by_key) simp_all
  with Some show ?thesis
    by (simp add: handlePayPalPaymentFailed_def Let_def findOneAndUpdate_idem)
qed

lemma failed_nequi_twice:
  assumes "distinct (map pay_id (payments s))"
  shows "handleNequiPaymentFailed pid body (handleNequiPaymentFailed pid body s)
         = handleNequiPaymentFailed pid body s"
proof (cases "findOne (\<lambda>p. pay_provider_payment_id p = pid) (payments s)")
  case None
  then show ?thesis by (simp add: handleNequiPaymentFailed_def)
next
  case (Some p)
  have "findOne (\<lambda>p. pay_provider_payment_id p = pid)
          (findOneAndUpdate (\<lambda>x. pay_id x = pay_id p)
             (\<lambda>p. p\<lparr>pay_status := PFailed, pay_raw_response := FromWebhook body\<rparr>) (payments s))
        = Some (p\<lparr>pay_status := PFailed, pay_raw_response := FromWebhook body\<rparr>)"
    using assms Some by (intro findOne_update_by_key) simp_all
  with Some show ?thesis
    by (simp add: handleNequiPaymentFailed_def findOneAndUpdate_idem)
qed

lemma paypal_webhook_twice:
  assumes "distinct (map pay_id (payments s))"
    and "paypal_verifyWebhookSignature body sg1 webhookId t1"
    and "paypal_verifyWebhookSignature body sg2 webhookId t2"
  shows "paypal_webhook webhookId \<lparr>pp_signature = sg2, pp_body = body\<rparr> t2
           (snd (paypal_webhook webhookId \<lparr>pp_signature = sg1, pp_body = body\<rparr> t1 s))
         = paypal_webhook webhookId \<lparr>pp_signature = sg1, pp_body = body\<rparr> t1 s"
  using assms
  by (simp add: paypal_webhook_def completed_paypal_twice failed_paypal_twice split: option.split)

lemma nequi_webhook_twice:
  assumes "distinct (map pay_id (payments s))"
    and "nequi_verifyWebhookSignature cr body sg1 ts1"
    and "nequi_verifyWebhookSignature cr body sg2 ts2"
  shows "nequi_webhook cr \<lparr>nq_signature = sg2, nq_timestamp = ts2, nq_body = body\<rparr> t2
           (snd (nequi_webhook cr \<lparr>nq_signature = sg1, nq_timestamp = ts1, nq_body = body\<rparr> t1 s))
         = nequi_webhook cr \<lparr>nq_signature = sg1, nq_timestamp = ts1, nq_body = body\<rparr> t1 s"
  using assms
  by (simp add: nequi_webhook_def completed_nequi_twice failed_nequi_twice)

lemma paypal_redelivery_settled:
  assumes "distinct (map pay_id (payments s))"
    and "paypal_verified webhookId body d" and "list_all (paypal_verified webhookId body) ds"
  shows "deliver_paypal webhookId body ds (deliver_paypal webhookId body [d] s)
         = deliver_paypal webhookId body [d] s"
  using assms(3)
proof (induction ds)
  case Nil
  then show ?case by simp
next
  case (Cons e ds)
  obtain sg1 t1 where d: "d = (sg1, t1)" by (cases d)
  obtain sg2 t2 where e: "e = (sg2, t2)" by (cases e)
  from Cons.prems e have "paypal_verifyWebhookSignature body sg2 webhookId t2"
    by (simp add: paypal_verified_def)
  moreover from assms(2) d have "paypal_verifyWebhookSignature body sg1 webhookId t1"
    by (simp add: paypal_verified_def)
  ultimately have "snd (paypal_webhook webhookId \<lparr>pp_signature = sg2, pp_body = body\<rparr> t2
           (snd (paypal_webhook webhookId \<lparr>pp_signature = sg1, pp_body = body\<rparr> t1 s)))
         = snd (paypal_webhook webhookId \<lparr>pp_signature = sg1, pp_body = body\<rparr> t1 s)"
    using assms(1) by (simp add: paypal_webhook_twice)
  with Cons d e show ?case by simp
qed

lemma nequi_redelivery_settled:
  assumes "distinct (map pay_id (payments s))"
    and "nequi_verified cr body d" and "list_all (nequi_verified cr body) ds"
  shows "deliver_nequi cr body ds (deliver_nequi cr body [d] s)
         = deliver_nequi cr body [d] s"
  using assms(3)
proof (induction ds)
  case Nil
  then show ?case by simp
next
  case (Cons e ds)
  obtain sg1 ts1 t1 where d: "d = (sg1, ts1, t1)" by (cases d)
  obtain sg2 ts2 t2 where e: "e = (sg2, ts2, t2)" by (cases e)
  from Cons.prems e have "nequi_verifyWebhookSignature cr body sg2 ts2"
    by (simp add: nequi_verified_def)
  moreover from assms(2) d have "nequi_verifyWebhookSignature cr body sg1 ts1"
    by (simp add: nequi_verified_def)
  ultimately have "snd (nequi_webhook cr \<lparr>nq_signature = sg2, nq_timestamp = ts2, nq_body = body\<rparr> t2
           (snd (nequi_webhook cr \<lparr>nq_signature = sg1, nq_timestamp = ts1, nq_body = body\<rparr> t1 s)))
         = snd (nequi_webhook cr \<lparr>nq_signature = sg1, nq_timestamp = ts1, nq_body = body\<rparr> t1 s)"
    using assms(1) by (simp add: nequi_webhook_twice)
  with Cons d e show ?case by simp
qed

text \<open>
  C2.  Take a store in which payment ids are distinct, as the unique index on \<open>id\<close> keeps
  them.  Delivering one webhook body any number of times, each delivery with a signature
  that verifies, leaves the store as the first delivery left it.  A repeated delivery
  changes nothing in what the first one left and is answered as the first one was: 200
  on the Nequi route, and 200 on the PayPal route whenever the body carries a resource.
  For a completion event the repeated delivery writes nothing, since the payment is no
  longer pending; for a failure event it writes the values that are already there.
\<close>

theorem duplicate_webhook_deliveries:
  "distinct (map pay_id (payments s)) \<longrightarrow>
     (paypal_verified webhookId pbody pd \<and> list_all (paypal_verified webhookId pbody) pds \<longrightarrow>
        deliver_paypal webhookId pbody (pd # pds) s = deliver_paypal webhookId pbody [pd] s)
     \<and> (paypal_verified webhookId pbody pd \<and> paypal_verified webhookId pbody pd' \<longrightarrow>
        paypal_webhook webhookId \<lparr>pp_signature = fst pd', pp_body = pbody\<rparr> (snd pd')
            (deliver_paypal webhookId pbody [pd] s)
          = (fst (paypal_webhook webhookId \<lparr>pp_signature = fst pd, pp_body = pbody\<rparr> (snd pd) s),
             deliver_paypal webhookId pbody [pd] s))
     \<and> (paypal_verified webhookId pbody pd \<and> resource pbody \<noteq> None \<longrightarrow>
        fst (paypal_webhook webhookId \<lparr>pp_signature = fst pd, pp_body = pbody\<rparr> (snd pd) s)
          = Response 200 Received)
     \<and> (nequi_verified cr nbody nd \<and> list_all (nequi_verified cr nbody) nds \<longrightarrow>
        deliver_nequi cr nbody (nd # nds) s = deliver_nequi cr nbody [nd] s)
     \<and> (nequi_verified cr nbody nd \<and> nequi_verified cr nbody nd' \<longrightarrow>
        nequi_webhook cr \<lparr>nq_signature = fst nd', nq_timestamp = fst (snd nd'), nq_body = nbody\<rparr>
            (snd (snd nd')) (deliver_nequi cr nbody [nd] s)
          = (Response 200 Received, deliver_nequi cr nbody [nd] s))"
proof (intro impI conjI)
  assume dist: "distinct (map pay_id (payments s))"
  {
    assume "paypal_verified webhookId pbody pd \<and> list_all (paypal_verified webhookId pbody) pds"
    then have "deliver_paypal webhookId pbody pds (deliver_paypal webhookId pbody [pd] s)
        = deliver_paypal webhookId pbody [pd] s"
      using dist by (simp add: paypal_redelivery_settled)
    then show "deliver_paypal webhookId pbody (pd # pds) s = deliver_paypal webhookId pbody [pd] s"
      by (cases pd) simp
  }
  {
    assume "paypal_verified webhookId pbody pd \<and> paypal_verified webhookId pbody pd'"
    then show "paypal_webhook webhookId \<lparr>pp_signature = fst pd', pp_body = pbody\<rparr> (snd pd')
            (deliver_paypal webhookId pbody [pd] s)
          = (fst (paypal_webhook webhookId \<lparr>pp_signature = fst pd, pp_body = pbody\<rparr> (snd pd) s),
             deliver_paypal webhookId pbody [pd] s)"
      using dist paypal_webhook_twice [of s pbody "fst pd" webhookId "snd pd" "fst pd'" "snd pd'"]
      by (cases pd) (simp add: paypal_verified_def)
  }
  {
    assume "paypal_verified webhookId pbody pd \<and> resource pbody \<noteq> None"
    then show "fst (paypal_webhook webhookId \<lparr>pp_signature = fst pd, pp_body = pbody\<rparr> (snd pd) s)
          = Response 200 Received"
      by (auto simp: paypal_webhook_def paypal_verified_def)
  }
  {
    assume "nequi_verified cr nbody nd \<and> list_all (nequi_verified cr nbody) nds"
    then have "deliver_nequi cr nbody nds (deliver_nequi cr nbody [nd] s)
        = deliver_nequi cr nbody [nd] s"
      using dist by (simp add: nequi_redelivery_settled)
    then show "deliver_nequi cr nbody (nd # nds) s = deliver_nequi cr nbody [nd] s"
      by (cases nd) simp
  }
  {
    assume v: "nequi_verified cr nbody nd \<and> nequi_verified cr nbody nd'"
    obtain sg1 ts1 t1 where nd: "nd = (sg1, ts1, t1)" by (cases nd)
    have ok: "fst (nequi_webhook cr \<lparr>nq_signature = sg1, nq_timestamp = ts1, nq_body = nbody\<rparr> t1 s)
        = Response 200 Received"
      using v nd by (simp add: nequi_webhook_def nequi_verified_def)
    have tw: "nequi_webhook cr
            \<lparr>nq_signature = fst nd', nq_timestamp = fst (snd nd'), nq_body = nbody\<rparr>
            (snd (snd nd'))
            (snd (nequi_webhook cr \<lparr>nq_signature = sg1, nq_timestamp = ts1, nq_body = nbody\<rparr> t1 s))
        = nequi_webhook cr \<lparr>nq_signature = sg1, nq_timestamp = ts1, nq_body = nbody\<rparr> t1 s"
      using v dist nd by (intro nequi_webhook_twice) (simp_all add: nequi_verified_def)
    have d1: "deliver_nequi cr nbody [nd] s
        = snd (nequi_webhook cr \<lparr>nq_signature = sg1, nq_timestamp = ts1, nq_body = nbody\<rparr> t1 s)"
      by (simp add: nd)
    show "nequi_webhook cr
            \<lparr>nq_signature = fst nd', nq_timestamp = fst (snd nd'), nq_body = nbody\<rparr>
            (snd (snd nd')) (deliver_nequi cr nbody [nd] s)
          = (Response 200 Received, deliver_nequi cr nbody [nd] s)"
      unfolding d1 tw using ok by (simp add: prod_eq_iff)
  }
qed

lemma ex_later_toString: "number_toString 1700000001000 = ''1700000001000''"
  by (simp add: number_toString_def digits_lt digits_ge)

theorem duplicate_webhook_deliveries_witness:
  "distinct (map pay_id (payments ex_db))
   \<and> paypal_verified None (pp_body ex_denied) (Some ''placeholder-signature-1700000000000'', ex_now)
   \<and> list_all (paypal_verified None (pp_body ex_denied))
        [(Some ''placeholder-signature-1700000001000'', 1700000001000)]
   \<and> resource (pp_body ex_denied) \<noteq> None
   \<and> deliver_paypal None (pp_body ex_denied)
        [(Some ''placeholder-signature-1700000000000'', ex_now),
         (Some ''placeholder-signature-1700000001000'', 1700000001000)] ex_db
      = deliver_paypal None (pp_body ex_denied)
          [(Some ''placeholder-signature-1700000000000'', ex_now)] ex_db
   \<and> map pay_status (payments (deliver_paypal None (pp_body ex_denied)
          [(Some ''placeholder-signature-1700000000000'', ex_now)] ex_db)) = [PFailed]
   \<and> nequi_verified ex_crypto (nq_body ex_nequi_completed)
        (nq_signature ex_nequi_completed, nq_timestamp ex_nequi_completed, ex_now)
   \<and> list_all (nequi_verified ex_crypto (nq_body ex_nequi_completed))
        [(nq_signature ex_nequi_completed, nq_timestamp ex_nequi_completed, 1700000001000)]
   \<and> deliver_nequi ex_crypto (nq_body ex_nequi_completed)
        [(nq_signature ex_nequi_completed, nq_timestamp ex_nequi_completed, ex_now),
         (nq_signature ex_nequi_completed, nq_timestamp ex_nequi_completed, 1700000001000)] ex_db
      = deliver_nequi ex_crypto (nq_body ex_nequi_completed)
          [(nq_signature ex_nequi_completed, nq_timestamp ex_nequi_completed, ex_now)] ex_db
   \<and> map pay_status (payments (deliver_nequi ex_crypto (nq_body ex_nequi_completed)
          [(nq_signature ex_nequi_completed, nq_timestamp ex_nequi_completed, ex_now)] ex_db))
      = [PCompleted]"
  using duplicate_webhook_deliveries [of ex_db None "pp_body ex_denied"
      "(Some ''placeholder-signature-1700000000000'', ex_now)"
      "[(Some ''placeholder-signature-1700000001000'', 1700000001000)]" _
      ex_crypto "nq_body ex_nequi_completed"
      "(nq_signature ex_nequi_completed, nq_timestamp ex_nequi_completed, ex_now)"
      "[(nq_signature ex_nequi_completed, nq_timestamp ex_nequi_completed, 1700000001000)]"]
    ex_denied_verifies ex_nequi_completed_verifies
  by (simp add: paypal_verified_def nequi_verified_def paypal_verifyWebhookSignature_def
      paypal_generateWebhookSignature_def ex_later_toString ex_now_toString
      paypal_webhook_def nequi_webhook_def handlePayPalPaymentFailed_def
      handleNequiPaymentCompleted_def findOne_def Let_def
      ex_denied_def ex_db_def ex_payment_def ex_order_def ex_resource_def ex_nequi_completed_def)

subsection \<open>Payment rows of one order\<close>

text \<open>
  C4, as the code has it.  The store holds the pending order \<open>ORD_1\<close> and its pending
  payment \<open>PAY_1\<close>.  A further payment-creation call for \<open>ORD_1\<close> is answered 200 and
  records a second pending payment, \<open>PAY_2\<close>, so the order then has two payment rows with
  a non-terminal status.  And when two creation calls for the order, still without a
  payment, take turns at their awaits, both are answered 200 and both rows are recorded.
  The claim says the second call fails and at most one such row exists.
\<close>

theorem second_active_payment_recorded:
  "payments_of ''ORD_1'' ex_db = [ex_payment]
   \<and> pay_status ex_payment = PPending
   \<and> createPayPalPayment ex_create_req (Returned ex_paypal_data) ''PAY_2'' ex_db
      = (Response 200 (PayPalCreated (Some ''PP-2'') (Some ''https://paypal.test/approve/PP-2'')),
         \<lparr>payments = [ex_payment, ex_second_payment],
          orders = [ex_order\<lparr>ord_payment_id := Some ''PAY_2''\<rparr>], products = []\<rparr>)
   \<and> payments_of ''ORD_1''
        (snd (createPayPalPayment ex_create_req (Returned ex_paypal_data) ''PAY_2'' ex_db))
      = [ex_payment, ex_second_payment]
   \<and> filter (\<lambda>p. non_terminal (pay_status p))
        (payments_of ''ORD_1''
           (snd (createPayPalPayment ex_create_req (Returned ex_paypal_data) ''PAY_2'' ex_db)))
      = [ex_payment, ex_second_payment]
   \<and> race (ex_create_req, Returned ex_paypal_accepted, ''PAY_1'')
        (ex_create_req, Returned ex_paypal_data, ''PAY_2'')
        [True, False, True, False, True, False, True, False]
        (AtFindOrder, AtFindOrder, ex_open_db)
      = (Responded (Response 200
           (PayPalCreated (Some ''PP-1'') (Some ''https://paypal.test/approve/PP-1''))),
         Responded (Response 200
           (PayPalCreated (Some ''PP-2'') (Some ''https://paypal.test/approve/PP-2''))),
         \<lparr>payments = [ex_payment, ex_second_payment],
          orders = [ex_order\<lparr>ord_payment_id := Some ''PAY_2''\<rparr>], products = []\<rparr>)"
  by (simp add: createPayPalPayment_def Payment_save_def PaymentSchema_validate_def
      access_denied_def findOne_def payments_of_def non_terminal_def Let_def
      ex_second_payment_def ex_paypal_accepted_def ex_open_db_def ex_defs)

subsection \<open>Order statuses\<close>

lemma only_writes_refl [simp]: "only_writes st ds ds"
  by (simp add: only_writes_def list_all2_refl)

lemma only_writes_update:
  "(\<And>d. ord_id (u d) = ord_id d \<and> (ord_status (u d) = ord_status d \<or> ord_status (u d) = st)) \<Longrightarrow>
     only_writes st ds (findOneAndUpdate q u ds)"
  unfolding only_writes_def
  by (induction ds) (auto simp: list_all2_refl)

lemma completed_paypal_writes_paid:
  "only_writes OPaid (orders s) (orders (handlePayPalPaymentCompleted res now s))"
  by (simp add: handlePayPalPaymentCompleted_def Let_def only_writes_update split: option.split)

lemma completed_nequi_writes_paid:
  "only_writes OPaid (orders s) (orders (handleNequiPaymentCompleted pid body now s))"
  by (simp add: handleNequiPaymentCompleted_def only_writes_update split: option.split)

lemma failed_paypal_writes_cancelled:
  "only_writes OCancelled (orders s) (orders (handlePayPalPaymentFailed res s))"
  by (simp add: handlePayPalPaymentFailed_def Let_def only_writes_update split: option.split)

lemma failed_nequi_writes_cancelled:
  "only_writes OCancelled (orders s) (orders (handleNequiPaymentFailed pid body s))"
  by (simp add: handleNequiPaymentFailed_def only_writes_update split: option.split)

lemma capture_writes_paid:
  "only_writes OPaid (orders s) (orders (snd (capturePayPalPayment req cd now s)))"
  by (simp add: capturePayPalPayment_def only_writes_update split: option.split outcome.split)

lemma refund_writes_refunded:
  "only_writes ORefunded (orders s) (orders (snd (refundPayment req rc s)))"
  by (simp add: refundPayment_def only_writes_update split: option.split outcome.split)

lemma create_paypal_keeps_status:
  "map ord_status (orders (snd (createPayPalPayment req pd newId s))) = map ord_status (orders s)"
  by (simp add: createPayPalPayment_def Let_def map_findOneAndUpdate
      split: option.split outcome.split sum.split)

lemma create_nequi_keeps_status:
  "map ord_status (orders (snd (createNequiPayment req pd newId s))) = map ord_status (orders s)"
  by (simp add: createNequiPayment_def Let_def map_findOneAndUpdate
      split: option.split outcome.split sum.split)

lemma update_status_sets_requested:
  assumes "us_errors req = []" and "map_option user_role (us_user req) = Some ''admin''"
    and "order_status_of_string (us_status req) = Some st" and "notes_valid (us_notes req)"
    and "findOne (\<lambda>d. ord_id d = us_id req) (orders s) = Some d"
  shows "fst (updateOrderStatus req s) = Response 200 (OrderJson (d\<lparr>ord_status := st\<rparr>))"
    and "findOne (\<lambda>d. ord_id d = us_id req) (orders (snd (updateOrderStatus req s)))
           = Some (d\<lparr>ord_status := st\<rparr>)"
proof -
  show "fst (updateOrderStatus req s) = Response 200 (OrderJson (d\<lparr>ord_status := st\<rparr>))"
    using assms by (simp add: updateOrderStatus_def)
  have "ord_id d = us_id req" using findOne_SomeD [OF assms(5)] by simp
  then show "findOne (\<lambda>d. ord_id d = us_id req) (orders (snd (updateOrderStatus req s)))
           = Some (d\<lparr>ord_status := st\<rparr>)"
    using assms by (simp add: updateOrderStatus_def findOne_findOneAndUpdate_same)
qed

lemma every_status_requestable: "\<exists>str. order_status_of_string str = Some st"
proof (cases st)
  case OPending then show ?thesis by (intro exI [of _ "''pending''"]) (simp add: order_status_of_string_def)
next
  case OPaid then show ?thesis by (intro exI [of _ "''paid''"]) (simp add: order_status_of_string_def)
next
  case OCancelled then show ?thesis by (intro exI [of _ "''cancelled''"]) (simp add: order_status_of_string_def)
next
  case OPreparing then show ?thesis by (intro exI [of _ "''preparing''"]) (simp add: order_status_of_string_def)
next
  case OShipped then show ?thesis by (intro exI [of _ "''shipped''"]) (simp add: order_status_of_string_def)
next
  case ODelivered then show ?thesis by (intro exI [of _ "''delivered''"]) (simp add: order_status_of_string_def)
next
  case ORefunded then show ?thesis by (intro exI [of _ "''refunded''"]) (simp add: order_status_of_string_def)
qed

text \<open>
  C5, as the code has it.  The claim that only pending\<rightarrow>paid, pending\<rightarrow>cancelled and
  paid\<rightarrow>refunded are ever performed fails: an admin's \<open>updateOrderStatus\<close> moves a
  refunded order back to pending and is answered 200.
\<close>

theorem refunded_order_reopened:
  "map ord_status (orders ex_refunded_db) = [ORefunded]
   \<and> code (fst (updateOrderStatus ex_update_req ex_refunded_db)) = 200
   \<and> map ord_status (orders (snd (updateOrderStatus ex_update_req ex_refunded_db))) = [OPending]"
  by (simp add: updateOrderStatus_def order_status_of_string_def notes_valid_def findOne_def ex_defs)

text \<open>
  C5, amended.  The completion paths (the completed webhooks and the capture) write no
  order status but paid, the failure webhooks none but cancelled, \<open>refundPayment\<close> none
  but refunded, and payment creation leaves every status as it is.  Each of the seven
  statuses of the schema can be requested from \<open>updateOrderStatus\<close>, and an admin's valid
  request for an existing order is answered 200 with the order set to the requested
  status, whatever its status was: no transition is refused, and an order that is
  cancelled or refunded can be changed.
\<close>

theorem order_status_writes:
  "only_writes OPaid (orders s) (orders (handlePayPalPaymentCompleted res now s))
   \<and> only_writes OPaid (orders s) (orders (handleNequiPaymentCompleted pid body now s))
   \<and> only_writes OPaid (orders s) (orders (snd (capturePayPalPayment creq cd now s)))
   \<and> only_writes OCancelled (orders s) (orders (handlePayPalPaymentFailed res s))
   \<and> only_writes OCancelled (orders s) (orders (handleNequiPaymentFailed pid body s))
   \<and> only_writes ORefunded (orders s) (orders (snd (refundPayment rreq rc s)))
   \<and> map ord_status (orders (snd (createPayPalPayment preq ppd newId s))) = map ord_status (orders s)
   \<and> map ord_status (orders (snd (createNequiPayment preq npd newId s))) = map ord_status (orders s)
   \<and> (\<exists>str. order_status_of_string str = Some st)
   \<and> (us_errors req = [] \<and> map_option user_role (us_user req) = Some ''admin''
        \<and> order_status_of_string (us_status req) = Some st \<and> notes_valid (us_notes req)
        \<and> findOne (\<lambda>d. ord_id d = us_id req) (orders s) = Some d \<longrightarrow>
      fst (updateOrderStatus req s) = Response 200 (OrderJson (d\<lparr>ord_status := st\<rparr>))
      \<and> findOne (\<lambda>d. ord_id d = us_id req) (orders (snd (updateOrderStatus req s)))
           = Some (d\<lparr>ord_status := st\<rparr>))"
  by (simp add: completed_paypal_writes_paid completed_nequi_writes_paid capture_writes_paid
    failed_paypal_writes_cancelled failed_nequi_writes_cancelled refund_writes_refunded
    create_paypal_keeps_status create_nequi_keeps_status every_status_requestable
    update_status_sets_requested)

theorem order_status_writes_witness:
  "us_errors ex_update_req = [] \<and> map_option user_role (us_user ex_update_req) = Some ''admin''
   \<and> order_status_of_string (us_status ex_update_req) = Some OPending
   \<and> notes_valid (us_notes ex_update_req)
   \<and> findOne (\<lambda>d. ord_id d = us_id ex_update_req) (orders ex_refunded_db)
        = Some (ex_order\<lparr>ord_status := ORefunded, ord_payment_status := PCompleted,
                         ord_paid_at := Some 1699999990000\<rparr>)
   \<and> findOne (\<lambda>d. ord_id d = us_id ex_update_req)
         (orders (snd (updateOrderStatus ex_update_req ex_refunded_db)))
        = Some (ex_order\<lparr>ord_status := OPending, ord_payment_status := PCompleted,
                         ord_paid_at := Some 1699999990000\<rparr>)
   \<and> only_writes OCancelled (orders ex_paid_db) (orders (handlePayPalPaymentFailed ex_resource ex_paid_db))"
  using order_status_writes [of ex_paid_db ex_resource _ _ _ _ _ _ _ _ _ _ _ OPending ex_update_req
      "ex_order\<lparr>ord_status := ORefunded, ord_payment_status := PCompleted,
                         ord_paid_at := Some 1699999990000\<rparr>"]
    order_status_writes [of ex_refunded_db _ _ _ _ _ _ _ _ _ _ _ _ OPending ex_update_req
      "ex_order\<lparr>ord_status := ORefunded, ord_payment_status := PCompleted,
                         ord_paid_at := Some 1699999990000\<rparr>"]
  by (simp add: order_status_of_string_def notes_valid_def findOne_def ex_update_req_def
      ex_refunded_db_def ex_admin_def ex_order_def)

subsection \<open>Refunds\<close>

lemma refund_threw_changes_nothing:
  "snd (refundPayment req Threw s) = s \<and> \<not> is_2xx (fst (refundPayment req Threw s))"
  by (simp add: refundPayment_def is_2xx_def split: option.split)

lemma refund_returned:
  assumes "rf_errors req = []" and "map_option user_role (rf_user req) = Some ''admin''"
    and "findOne (\<lambda>p. pay_id p = rf_payment_id req) (payments s) = Some p"
    and "pay_provider p \<noteq> Manual"
  shows "fst (refundPayment req (Returned r) s) = Response 200 (RefundJson r)"
    and "findOne (\<lambda>p. pay_id p = rf_payment_id req) (payments (snd (refundPayment req (Returned r) s)))
           = Some (p\<lparr>pay_status := PRefunded, pay_raw_response := FromRefund r\<rparr>)"
    and "findOne (\<lambda>d. ord_id d = pay_order_id p) (orders s) = Some d \<Longrightarrow>
         findOne (\<lambda>d. ord_id d = pay_order_id p) (orders (snd (refundPayment req (Returned r) s)))
           = Some (d\<lparr>ord_status := ORefunded\<rparr>)"
proof -
  have prov: "pay_provider p = PayPal \<or> pay_provider p = Nequi"
    using assms(4) by (cases "pay_provider p") simp_all
  have pid: "pay_id p = rf_payment_id req"
    using findOne_SomeD [OF assms(3)] by simp
  show "fst (refundPayment req (Returned r) s) = Response 200 (RefundJson r)"
    using assms(1-3) prov by (auto simp: refundPayment_def)
  show "findOne (\<lambda>p. pay_id p = rf_payment_id req) (payments (snd (refundPayment req (Returned r) s)))
           = Some (p\<lparr>pay_status := PRefunded, pay_raw_response := FromRefund r\<rparr>)"
    using assms(1-3) prov pid by (auto simp: refundPayment_def findOne_findOneAndUpdate_same)
  assume d: "findOne (\<lambda>d. ord_id d = pay_order_id p) (orders s) = Some d"
  have "ord_id d = pay_order_id p"
    using findOne_SomeD [OF d] by simp
  then show "findOne (\<lambda>d. ord_id d = pay_order_id p) (orders (snd (refundPayment req (Returned r) s)))
           = Some (d\<lparr>ord_status := ORefunded\<rparr>)"
    using assms(1-3) prov d by (auto simp: refundPayment_def findOne_findOneAndUpdate_same)
qed

text \<open>
  C6, as the code has it.  The claim that a refund request for a pending, unpaid order
  fails and mutates nothing does not hold: \<open>refundPayment\<close> tests neither the order's nor
  the payment's status, so when the provider's refund call returns, a pending order and
  its pending payment become refunded and the answer is 200.
\<close>

theorem unpaid_order_refunded:
  "map ord_status (orders ex_db) = [OPending]
   \<and> map pay_status (payments ex_db) = [PPending]
   \<and> fst (refundPayment ex_refund_req (Returned ''{}'') ex_db) = Response 200 (RefundJson ''{}'')
   \<and> map ord_status (orders (snd (refundPayment ex_refund_req (Returned ''{}'') ex_db))) = [ORefunded]
   \<and> map pay_status (payments (snd (refundPayment ex_refund_req (Returned ''{}'') ex_db))) = [PRefunded]"
  by (simp add: refundPayment_def findOne_def ex_defs)

text \<open>
  C6, amended.  A refund request changes no record unless the provider's refund call has
  returned: when the call throws, the store is unchanged and the answer is not a 2xx one.
  When an admin's valid request names a stored PayPal or Nequi payment and the provider
  call returns, the answer is 200 and the payment and its order are set to refunded,
  whatever their status was.
\<close>

theorem refund_follows_provider:
  "snd (refundPayment req Threw s) = s \<and> \<not> is_2xx (fst (refundPayment req Threw s))
   \<and> (rf_errors req = [] \<and> map_option user_role (rf_user req) = Some ''admin''
        \<and> findOne (\<lambda>p. pay_id p = rf_payment_id req) (payments s) = Some p
        \<and> pay_provider p \<noteq> Manual
        \<and> findOne (\<lambda>d. ord_id d = pay_order_id p) (orders s) = Some d \<longrightarrow>
      fst (refundPayment req (Returned r) s) = Response 200 (RefundJson r)
      \<and> findOne (\<lambda>p. pay_id p = rf_payment_id req)
            (payments (snd (refundPayment req (Returned r) s)))
          = Some (p\<lparr>pay_status := PRefunded, pay_raw_response := FromRefund r\<rparr>)
      \<and> findOne (\<lambda>d. ord_id d = pay_order_id p)
            (orders (snd (refundPayment req (Returned r) s)))
          = Some (d\<lparr>ord_status := ORefunded\<rparr>))"
  by (simp add: refund_threw_changes_nothing refund_returned)

theorem refund_follows_provider_witness:
  "rf_errors ex_refund_req = [] \<and> map_option user_role (rf_user ex_refund_req) = Some ''admin''
   \<and> findOne (\<lambda>p. pay_id p = rf_payment_id ex_refund_req) (payments ex_paid_db)
        = Some (ex_payment\<lparr>pay_status := PCompleted, pay_confirmed_at := Some 1699999990000\<rparr>)
   \<and> pay_provider (ex_payment\<lparr>pay_status := PCompleted, pay_confirmed_at := Some 1699999990000\<rparr>)
        \<noteq> Manual
   \<and> findOne (\<lambda>d. ord_id d = ''ORD_1'') (orders ex_paid_db)
        = Some (ex_order\<lparr>ord_status := OPaid, ord_payment_status := PCompleted,
                         ord_paid_at := Some 1699999990000\<rparr>)
   \<and> snd (refundPayment ex_refund_req Threw ex_paid_db) = ex_paid_db
   \<and> fst (refundPayment ex_refund_req (Returned ''{}'') ex_paid_db) = Response 200 (RefundJson ''{}'')
   \<and> findOne (\<lambda>d. ord_id d = ''ORD_1'')
         (orders (snd (refundPayment ex_refund_req (Returned ''{}'') ex_paid_db)))
        = Some (ex_order\<lparr>ord_status := ORefunded, ord_payment_status := PCompleted,
                         ord_paid_at := Some 1699999990000\<rparr>)"
  using refund_follows_provider [of ex_refund_req ex_paid_db
      "ex_payment\<lparr>pay_status := PCompleted, pay_confirmed_at := Some 1699999990000\<rparr>"
      "ex_order\<lparr>ord_status := OPaid, ord_payment_status := PCompleted,
                         ord_paid_at := Some 1699999990000\<rparr>" "''{}''"]
  by (simp add: findOne_def ex_refund_req_def ex_paid_db_def ex_admin_def ex_payment_def ex_order_def)

subsection \<open>From payment creation to the completed webhook\<close>

lemma create_paypal_200:
  assumes "code (fst (createPayPalPayment req (Returned pd) newId s)) = 200"
  shows "\<exists>d. findOne (\<lambda>d. ord_id d = cr_order_id req) (orders s) = Some d
           \<and> ord_status d = OPending
           \<and> findOne (\<lambda>p. pay_id p = newId) (payments s) = None
           \<and> snd (createPayPalPayment req (Returned pd) newId s)
               = s\<lparr>payments := payments s @
                      [\<lparr>pay_id = newId, pay_order_id = cr_order_id req, pay_provider = PayPal,
                        pay_provider_payment_id = orderID pd, pay_status = PPending,
                        pay_amount_cop = ord_total_cop d, pay_currency = ord_currency d,
                        pay_raw_response = NoResponse, pay_confirmed_at = None\<rparr>],
                    orders := findOneAndUpdate (\<lambda>d. ord_id d = cr_order_id req)
                      (\<lambda>d. d\<lparr>ord_payment_id := Some newId\<rparr>) (orders s)\<rparr>"
proof -
  from assms obtain d where d: "findOne (\<lambda>d. ord_id d = cr_order_id req) (orders s) = Some d"
    by (auto simp: createPayPalPayment_def split: if_splits option.splits)
  then have oid: "ord_id d = cr_order_id req" using findOne_SomeD by fastforce
  from assms d oid show ?thesis
    by (auto simp: createPayPalPayment_def Let_def Payment_save_def findOne_None_iff
        split: if_splits)
qed

lemma paypal_round_trip:
  assumes ok: "code (fst (createPayPalPayment req (Returned pd) newId s)) = 200"
    and ref: "orderID pd = Some ref"
    and fresh: "findOne (\<lambda>p. pay_provider_payment_id p = Some ref) (payments s) = None"
    and ver: "paypal_verifyWebhookSignature (pp_body wreq) (pp_signature wreq) webhookId now"
    and ev: "event_type (pp_body wreq) = Some ''PAYMENT.CAPTURE.COMPLETED''"
    and res: "resource (pp_body wreq) = Some res"
    and rid: "res_id res = Some ref"
  shows "\<exists>d p. findOne (\<lambda>d. ord_id d = cr_order_id req) (orders s) = Some d
      \<and> ord_status d = OPending
      \<and> findOne (\<lambda>p. pay_id p = newId)
            (payments (snd (createPayPalPayment req (Returned pd) newId s))) = Some p
      \<and> pay_status p = PPending \<and> pay_provider_payment_id p = Some ref
      \<and> pay_order_id p = cr_order_id req
      \<and> findOne (\<lambda>d. ord_id d = cr_order_id req)
            (orders (snd (createPayPalPayment req (Returned pd) newId s)))
          = Some (d\<lparr>ord_payment_id := Some newId\<rparr>)
      \<and> fst (paypal_webhook webhookId wreq now
            (snd (createPayPalPayment req (Returned pd) newId s))) = Response 200 Received
      \<and> findOne (\<lambda>d. ord_id d = cr_order_id req)
            (orders (snd (paypal_webhook webhookId wreq now
               (snd (createPayPalPayment req (Returned pd) newId s)))))
          = Some (d\<lparr>ord_payment_id := Some newId, ord_status := OPaid,
                    ord_payment_status := PCompleted, ord_paid_at := Some now\<rparr>)
      \<and> findOne (\<lambda>p. pay_id p = newId)
            (payments (snd (paypal_webhook webhookId wreq now
               (snd (createPayPalPayment req (Returned pd) newId s)))))
          = Some (p\<lparr>pay_status := PCompleted, pay_raw_response := FromResource res,
                    pay_confirmed_at := Some now\<rparr>)"
proof -
  from create_paypal_200 [OF ok] obtain d where
    d: "findOne (\<lambda>d. ord_id d = cr_order_id req) (orders s) = Some d"
    and pend: "ord_status d = OPending"
    and idfresh: "findOne (\<lambda>p. pay_id p = newId) (payments s) = None"
    and s1: "snd (createPayPalPayment req (Returned pd) newId s)
               = s\<lparr>payments := payments s @
                      [\<lparr>pay_id = newId, pay_order_id = cr_order_id req, pay_provider = PayPal,
                        pay_provider_payment_id = orderID pd, pay_status = PPending,
                        pay_amount_cop = ord_total_cop d, pay_currency = ord_currency d,
                        pay_raw_response = NoResponse, pay_confirmed_at = None\<rparr>],
                    orders := findOneAndUpdate (\<lambda>d. ord_id d = cr_order_id req)
                      (\<lambda>d. d\<lparr>ord_payment_id := Some newId\<rparr>) (orders s)\<rparr>"
    by blast
  let ?p = "\<lparr>pay_id = newId, pay_order_id = cr_order_id req, pay_provider = PayPal,
      pay_provider_payment_id = orderID pd, pay_status = PPending,
      pay_amount_cop = ord_total_cop d, pay_currency = ord_currency d,
      pay_raw_response = NoResponse, pay_confirmed_at = None\<rparr>"
  have oid: "ord_id d = cr_order_id req" using findOne_SomeD [OF d] by simp
  have p1: "findOne (\<lambda>p. pay_id p = newId) (payments s @ [?p]) = Some ?p"
    using idfresh by (simp add: findOne_append_fresh)
  have p1': "findOne (\<lambda>p. pay_provider_payment_id p = Some ref) (payments s @ [?p]) = Some ?p"
    using fresh ref by (simp add: findOne_append_fresh)
  have o1: "findOne (\<lambda>d. ord_id d = cr_order_id req)
      (findOneAndUpdate (\<lambda>d. ord_id d = cr_order_id req)
         (\<lambda>d. d\<lparr>ord_payment_id := Some newId\<rparr>) (orders s))
      = Some (d\<lparr>ord_payment_id := Some newId\<rparr>)"
    using d oid by (simp add: findOne_findOneAndUpdate_same)
  have o2: "findOne (\<lambda>d. ord_id d = cr_order_id req)
      (findOneAndUpdate (\<lambda>d. ord_id d = cr_order_id req)
         (\<lambda>d. d\<lparr>ord_status := OPaid, ord_payment_status := PCompleted, ord_paid_at := Some now\<rparr>)
         (findOneAndUpdate (\<lambda>d. ord_id d = cr_order_id req)
            (\<lambda>d. d\<lparr>ord_payment_id := Some newId\<rparr>) (orders s)))
      = Some (d\<lparr>ord_payment_id := Some newId, ord_status := OPaid,
                ord_payment_status := PCompleted, ord_paid_at := Some now\<rparr>)"
    using o1 oid by (simp add: findOne_findOneAndUpdate_same)
  have p2: "findOneAndUpdate (\<lambda>p. pay_id p = newId)
      (\<lambda>p. p\<lparr>pay_status := PCompleted, pay_raw_response := FromResource res,
              pay_confirmed_at := Some now\<rparr>) (payments s @ [?p])
      = payments s @ [?p\<lparr>pay_status := PCompleted, pay_raw_response := FromResource res,
              pay_confirmed_at := Some now\<rparr>]"
    using idfresh by (simp add: findOneAndUpdate_append_fresh)
  have w: "paypal_webhook webhookId wreq now (snd (createPayPalPayment req (Returned pd) newId s))
      = (Response 200 Received,
         s\<lparr>payments := payments s @ [?p\<lparr>pay_status := PCompleted,
               pay_raw_response := FromResource res, pay_confirmed_at := Some now\<rparr>],
           orders := findOneAndUpdate (\<lambda>d. ord_id d = cr_order_id req)
             (\<lambda>d. d\<lparr>ord_status := OPaid, ord_payment_status := PCompleted, ord_paid_at := Some now\<rparr>)
             (findOneAndUpdate (\<lambda>d. ord_id d = cr_order_id req)
                (\<lambda>d. d\<lparr>ord_payment_id := Some newId\<rparr>) (orders s))\<rparr>)"
    using ver ev res rid p1' p2
    by (simp add: s1 paypal_webhook_def handlePayPalPaymentCompleted_def Let_def)
  have p3: "findOne (\<lambda>p. pay_id p = newId)
      (payments s @ [?p\<lparr>pay_status := PCompleted, pay_raw_response := FromResource res,
              pay_confirmed_at := Some now\<rparr>])
      = Some (?p\<lparr>pay_status := PCompleted, pay_raw_response := FromResource res,
              pay_confirmed_at := Some now\<rparr>)"
    using idfresh by (simp add: findOne_append_fresh)
  have c1: "findOne (\<lambda>p. pay_id p = newId)
      (payments (snd (createPayPalPayment req (Returned pd) newId s))) = Some ?p"
    using p1 by (simp add: s1)
  have c2: "findOne (\<lambda>d. ord_id d = cr_order_id req)
      (orders (snd (createPayPalPayment req (Returned pd) newId s)))
      = Some (d\<lparr>ord_payment_id := Some newId\<rparr>)"
    using o1 by (simp add: s1)
  have c3: "pay_status ?p = PPending \<and> pay_provider_payment_id ?p = Some ref
      \<and> pay_order_id ?p = cr_order_id req"
    using ref by simp
  show ?thesis
    apply (rule exI [of _ d], rule exI [of _ ?p])
    apply (simp only: w fst_conv snd_conv c1 c2 c3 d pend)
    using o2 p3 by simp
qed

lemma create_nequi_200:
  assumes "code (fst (createNequiPayment req (Returned pd) newId s)) = 200"
  shows "\<exists>d. findOne (\<lambda>d. ord_id d = cr_order_id req) (orders s) = Some d
           \<and> ord_status d = OPending
           \<and> findOne (\<lambda>p. pay_id p = newId) (payments s) = None
           \<and> snd (createNequiPayment req (Returned pd) newId s)
               = s\<lparr>payments := payments s @
                      [\<lparr>pay_id = newId, pay_order_id = cr_order_id req, pay_provider = Nequi,
                        pay_provider_payment_id = np_paymentId pd, pay_status = PPending,
                        pay_amount_cop = ord_total_cop d, pay_currency = ord_currency d,
                        pay_raw_response = NoResponse, pay_confirmed_at = None\<rparr>],
                    orders := findOneAndUpdate (\<lambda>d. ord_id d = cr_order_id req)
                      (\<lambda>d. d\<lparr>ord_payment_id := Some newId\<rparr>) (orders s)\<rparr>"
proof -
  from assms obtain d where d: "findOne (\<lambda>d. ord_id d = cr_order_id req) (orders s) = Some d"
    by (auto simp: createNequiPayment_def split: if_splits option.splits)
  then have oid: "ord_id d = cr_order_id req" using findOne_SomeD by fastforce
  from assms d oid show ?thesis
    by (auto simp: createNequiPayment_def Let_def Payment_save_def findOne_None_iff
        split: if_splits)
qed

lemma nequi_round_trip:
  assumes ok: "code (fst (createNequiPayment req (Returned pd) newId s)) = 200"
    and ref: "np_paymentId pd = Some ref"
    and fresh: "findOne (\<lambda>p. pay_provider_payment_id p = Some ref) (payments s) = None"
    and ver: "nequi_verifyWebhookSignature cr (nq_body wreq) (nq_signature wreq) (nq_timestamp wreq)"
    and ev: "eventType (nq_body wreq) = Some ''PAYMENT_COMPLETED''"
    and rid: "paymentId (nq_body wreq) = Some ref"
  shows "\<exists>d p. findOne (\<lambda>d. ord_id d = cr_order_id req) (orders s) = Some d
      \<and> ord_status d = OPending
      \<and> findOne (\<lambda>p. pay_id p = newId)
            (payments (snd (createNequiPayment req (Returned pd) newId s))) = Some p
      \<and> pay_status p = PPending \<and> pay_provider_payment_id p = Some ref
      \<and> pay_order_id p = cr_order_id req
      \<and> findOne (\<lambda>d. ord_id d = cr_order_id req)
            (orders (snd (createNequiPayment req (Returned pd) newId s)))
          = Some (d\<lparr>ord_payment_id := Some newId\<rparr>)
      \<and> fst (nequi_webhook cr wreq now
            (snd (createNequiPayment req (Returned pd) newId s))) = Response 200 Received
      \<and> findOne (\<lambda>d. ord_id d = cr_order_id req)
            (orders (snd (nequi_webhook cr wreq now
               (snd (createNequiPayment req (Returned pd) newId s)))))
          = Some (d\<lparr>ord_payment_id := Some newId, ord_status := OPaid,
                    ord_payment_status := PCompleted, ord_paid_at := Some now\<rparr>)
      \<and> findOne (\<lambda>p. pay_id p = newId)
            (payments (snd (nequi_webhook cr wreq now
               (snd (createNequiPayment req (Returned pd) newId s)))))
          = Some (p\<lparr>pay_status := PCompleted, pay_raw_response := FromWebhook (nq_body wreq),
                    pay_confirmed_at := Some now\<rparr>)"
proof -
  from create_nequi_200 [OF ok] obtain d where
    d: "findOne (\<lambda>d. ord_id d = cr_order_id req) (orders s) = Some d"
    and pend: "ord_status d = OPending"
    and idfresh: "findOne (\<lambda>p. pay_id p = newId) (payments s) = None"
    and s1: "snd (createNequiPayment req (Returned pd) newId s)
               = s\<lparr>payments := payments s @
                      [\<lparr>pay_id = newId, pay_order_id = cr_order_id req, pay_provider = Nequi,
                        pay_provider_payment_id = np_paymentId pd, pay_status = PPending,
                        pay_amount_cop = ord_total_cop d, pay_currency = ord_currency d,
                        pay_raw_response = NoResponse, pay_confirmed_at = None\<rparr>],
                    orders := findOneAndUpdate (\<lambda>d. ord_id d = cr_order_id req)
                      (\<lambda>d. d\<lparr>ord_payment_id := Some newId\<rparr>) (orders s)\<rparr>"
    by blast
  let ?p = "\<lparr>pay_id = newId, pay_order_id = cr_order_id req, pay_provider = Nequi,
      pay_provider_payment_id = np_paymentId pd, pay_status = PPending,
      pay_amount_cop = ord_total_cop d, pay_currency = ord_currency d,
      pay_raw_response = NoResponse, pay_confirmed_at = None\<rparr>"
  have oid: "ord_id d = cr_order_id req" using findOne_SomeD [OF d] by simp
  have p1: "findOne (\<lambda>p. pay_id p = newId) (payments s @ [?p]) = Some ?p"
    using idfresh by (simp add: findOne_append_fresh)
  have p1': "findOne (\<lambda>p. pay_provider_payment_id p = Some ref) (payments s @ [?p]) = Some ?p"
    using fresh ref by (simp add: findOne_append_fresh)
  have o1: "findOne (\<lambda>d. ord_id d = cr_order_id req)
      (findOneAndUpdate (\<lambda>d. ord_id d = cr_order_id req)
         (\<lambda>d. d\<lparr>ord_payment_id := Some newId\<rparr>) (orders s))
      = Some (d\<lparr>ord_payment_id := Some newId\<rparr>)"
    using d oid by (simp add: findOne_findOneAndUpdate_same)
  have o2: "findOne (\<lambda>d. ord_id d = cr_order_id req)
      (findOneAndUpdate (\<lambda>d. ord_id d = cr_order_id req)
         (\<lambda>d. d\<lparr>ord_status := OPaid, ord_payment_status := PCompleted, ord_paid_at := Some now\<rparr>)
         (findOneAndUpdate (\<lambda>d. ord_id d = cr_order_id req)
            (\<lambda>d. d\<lparr>ord_payment_id := Some newId\<rparr>) (orders s)))
      = Some (d\<lparr>ord_payment_id := Some newId, ord_status := OPaid,
                ord_payment_status := PCompleted, ord_paid_at := Some now\<rparr>)"
    using o1 oid by (simp add: findOne_findOneAndUpdate_same)
  have p2: "findOneAndUpdate (\<lambda>p. pay_id p = newId)
      (\<lambda>p. p\<lparr>pay_status := PCompleted, pay_raw_response := FromWebhook (nq_body wreq),
              pay_confirmed_at := Some now\<rparr>) (payments s @ [?p])
      = payments s @ [?p\<lparr>pay_status := PCompleted, pay_raw_response := FromWebhook (nq_body wreq),
              pay_confirmed_at := Some now\<rparr>]"
    using idfresh by (simp add: findOneAndUpdate_append_fresh)
  have w: "nequi_webhook cr wreq now (snd (createNequiPayment req (Returned pd) newId s))
      = (Response 200 Received,
         s\<lparr>payments := payments s @ [?p\<lparr>pay_status := PCompleted,
               pay_raw_response := FromWebhook (nq_body wreq), pay_confirmed_at := Some now\<rparr>],
           orders := findOneAndUpdate (\<lambda>d. ord_id d = cr_order_id req)
             (\<lambda>d. d\<lparr>ord_status := OPaid, ord_payment_status := PCompleted, ord_paid_at := Some now\<rparr>)
             (findOneAndUpdate (\<lambda>d. ord_id d = cr_order_id req)
                (\<lambda>d. d\<lparr>ord_payment_id := Some newId\<rparr>) (orders s))\<rparr>)"
    using ver ev rid p1' p2
    by (simp add: s1 nequi_webhook_def handleNequiPaymentCompleted_def)
  have p3: "findOne (\<lambda>p. pay_id p = newId)
      (payments s @ [?p\<lparr>pay_status := PCompleted, pay_raw_response := FromWebhook (nq_body wreq),
              pay_confirmed_at := Some now\<rparr>])
      = Some (?p\<lparr>pay_status := PCompleted, pay_raw_response := FromWebhook (nq_body wreq),
              pay_confirmed_at := Some now\<rparr>)"
    using idfresh by (simp add: findOne_append_fresh)
  have c1: "findOne (\<lambda>p. pay_id p = newId)
      (payments (snd (createNequiPayment req (Returned pd) newId s))) = Some ?p"
    using p1 by (simp add: s1)
  have c2: "findOne (\<lambda>d. ord_id d = cr_order_id req)
      (orders (snd (createNequiPayment req (Returned pd) newId s)))
      = Some (d\<lparr>ord_payment_id := Some newId\<rparr>)"
    using o1 by (simp add: s1)
  have c3: "pay_status ?p = PPending \<and> pay_provider_payment_id ?p = Some ref
      \<and> pay_order_id ?p = cr_order_id req"
    using ref by simp
  show ?thesis
    apply (rule exI [of _ d], rule exI [of _ ?p])
    apply (simp only: w fst_conv snd_conv c1 c2 c3 d pend)
    using o2 p3 by simp
qed

text \<open>
  C7, as the code has it.  The webhook handlers look a payment up by the provider's
  correlation id alone, whichever provider it belongs to.  Here the store holds a pending
  Nequi payment \<open>PAY_0\<close> of the order \<open>ORD_0\<close> that carries the id \<open>PP-1\<close>, and no PayPal
  payment.  PayPal payment creation for the pending order \<open>ORD_1\<close> is answered 200 and
  records the pending payment \<open>PAY_1\<close> under the id \<open>PP-1\<close> that PayPal returned.  PayPal's
  verified completion event for \<open>PP-1\<close> is answered 200, and it completes the Nequi
  payment and marks \<open>ORD_0\<close> paid: \<open>ORD_1\<close> stays pending and \<open>PAY_1\<close> stays pending.
\<close>

theorem completed_webhook_pays_other_order:
  "map ord_id (orders ex_shared_ref_db) = [''ORD_0'', ''ORD_1'']
   \<and> map ord_status (orders ex_shared_ref_db) = [OPending, OPending]
   \<and> map pay_provider (payments ex_shared_ref_db) = [Nequi]
   \<and> code (fst (createPayPalPayment ex_create_req (Returned ex_paypal_accepted) ''PAY_1''
        ex_shared_ref_db)) = 200
   \<and> pending_payment_recorded ''ORD_1'' ''PAY_1'' ''PP-1''
        (snd (createPayPalPayment ex_create_req (Returned ex_paypal_accepted) ''PAY_1''
           ex_shared_ref_db))
   \<and> paypal_verifyWebhookSignature (pp_body ex_completed) (pp_signature ex_completed) None ex_now
   \<and> fst (paypal_webhook None ex_completed ex_now
        (snd (createPayPalPayment ex_create_req (Returned ex_paypal_accepted) ''PAY_1''
           ex_shared_ref_db))) = Response 200 Received
   \<and> map ord_status (orders (snd (paypal_webhook None ex_completed ex_now
        (snd (createPayPalPayment ex_create_req (Returned ex_paypal_accepted) ''PAY_1''
           ex_shared_ref_db))))) = [OPaid, OPending]
   \<and> map pay_status (payments (snd (paypal_webhook None ex_completed ex_now
        (snd (createPayPalPayment ex_create_req (Returned ex_paypal_accepted) ''PAY_1''
           ex_shared_ref_db))))) = [PCompleted, PPending]
   \<and> \<not> paid_with ''ORD_1'' ''PAY_1''
        (snd (paypal_webhook None ex_completed ex_now
           (snd (createPayPalPayment ex_create_req (Returned ex_paypal_accepted) ''PAY_1''
              ex_shared_ref_db))))"
  using ex_completed_verifies
  by (simp add: createPayPalPayment_def Payment_save_def PaymentSchema_validate_def
      access_denied_def findOne_def Let_def pending_payment_recorded_def paid_with_def
      paypal_webhook_def handlePayPalPaymentCompleted_def
      ex_shared_ref_db_def ex_nequi_payment_def ex_paypal_accepted_def ex_defs)

text \<open>
  C7, amended.  Suppose payment creation for an order is answered 200, the provider having
  returned the correlation id \<open>ref\<close>, which no stored payment of either provider carried
  before, and suppose the provider then sends its completion event for \<open>ref\<close> with a
  signature that verifies.  Then creation has recorded a pending payment under the new id,
  carrying \<open>ref\<close>, and has set the order's payment reference to it; the webhook is answered
  200; and afterwards the order is paid, its payment reference is the id of that payment,
  and that payment is completed.  This holds on the PayPal and on the Nequi route.
\<close>

theorem create_then_completed_webhook:
  "(code (fst (createPayPalPayment req (Returned ppd) newId s)) = 200
      \<and> orderID ppd = Some ref
      \<and> findOne (\<lambda>p. pay_provider_payment_id p = Some ref) (payments s) = None
      \<and> paypal_verifyWebhookSignature (pp_body preq) (pp_signature preq) webhookId now
      \<and> event_type (pp_body preq) = Some ''PAYMENT.CAPTURE.COMPLETED''
      \<and> resource (pp_body preq) = Some res \<and> res_id res = Some ref \<longrightarrow>
    pending_payment_recorded (cr_order_id req) newId ref
        (snd (createPayPalPayment req (Returned ppd) newId s))
    \<and> fst (paypal_webhook webhookId preq now
          (snd (createPayPalPayment req (Returned ppd) newId s))) = Response 200 Received
    \<and> paid_with (cr_order_id req) newId
        (snd (paypal_webhook webhookId preq now
           (snd (createPayPalPayment req (Returned ppd) newId s)))))
   \<and> (code (fst (createNequiPayment req (Returned npd) newId s)) = 200
      \<and> np_paymentId npd = Some ref
      \<and> findOne (\<lambda>p. pay_provider_payment_id p = Some ref) (payments s) = None
      \<and> nequi_verifyWebhookSignature cr (nq_body nreq) (nq_signature nreq) (nq_timestamp nreq)
      \<and> eventType (nq_body nreq) = Some ''PAYMENT_COMPLETED''
      \<and> paymentId (nq_body nreq) = Some ref \<longrightarrow>
    pending_payment_recorded (cr_order_id req) newId ref
        (snd (createNequiPayment req (Returned npd) newId s))
    \<and> fst (nequi_webhook cr nreq now
          (snd (createNequiPayment req (Returned npd) newId s))) = Response 200 Received
    \<and> paid_with (cr_order_id req) newId
        (snd (nequi_webhook cr nreq now
           (snd (createNequiPayment req (Returned npd) newId s)))))"
proof (intro conjI impI)
  assume a: "code (fst (createPayPalPayment req (Returned ppd) newId s)) = 200
      \<and> orderID ppd = Some ref
      \<and> findOne (\<lambda>p. pay_provider_payment_id p = Some ref) (payments s) = None
      \<and> paypal_verifyWebhookSignature (pp_body preq) (pp_signature preq) webhookId now
      \<and> event_type (pp_body preq) = Some ''PAYMENT.CAPTURE.COMPLETED''
      \<and> resource (pp_body preq) = Some res \<and> res_id res = Some ref"
  then have rt: "\<exists>d p. findOne (\<lambda>d. ord_id d = cr_order_id req) (orders s) = Some d
      \<and> ord_status d = OPending
      \<and> findOne (\<lambda>p. pay_id p = newId)
            (payments (snd (createPayPalPayment req (Returned ppd) newId s))) = Some p
      \<and> pay_status p = PPending \<and> pay_provider_payment_id p = Some ref
      \<and> pay_order_id p = cr_order_id req
      \<and> findOne (\<lambda>d. ord_id d = cr_order_id req)
            (orders (snd (createPayPalPayment req (Returned ppd) newId s)))
          = Some (d\<lparr>ord_payment_id := Some newId\<rparr>)
      \<and> fst (paypal_webhook webhookId preq now
            (snd (createPayPalPayment req (Returned ppd) newId s))) = Response 200 Received
      \<and> findOne (\<lambda>d. ord_id d = cr_order_id req)
            (orders (snd (paypal_webhook webhookId preq now
               (snd (createPayPalPayment req (Returned ppd) newId s)))))
          = Some (d\<lparr>ord_payment_id := Some newId, ord_status := OPaid,
                    ord_payment_status := PCompleted, ord_paid_at := Some now\<rparr>)
      \<and> findOne (\<lambda>p. pay_id p = newId)
            (payments (snd (paypal_webhook webhookId preq now
               (snd (createPayPalPayment req (Returned ppd) newId s)))))
          = Some (p\<lparr>pay_status := PCompleted, pay_raw_response := FromResource res,
                    pay_confirmed_at := Some now\<rparr>)"
    by (intro paypal_round_trip) simp_all
  from rt show "pending_payment_recorded (cr_order_id req) newId ref
        (snd (createPayPalPayment req (Returned ppd) newId s))"
    by (auto simp: pending_payment_recorded_def)
  from rt show "fst (paypal_webhook webhookId preq now
          (snd (createPayPalPayment req (Returned ppd) newId s))) = Response 200 Received"
    by blast
  from rt show "paid_with (cr_order_id req) newId
        (snd (paypal_webhook webhookId preq now
           (snd (createPayPalPayment req (Returned ppd) newId s))))"
    by (auto simp: paid_with_def)
next
  assume a: "code (fst (createNequiPayment req (Returned npd) newId s)) = 200
      \<and> np_paymentId npd = Some ref
      \<and> findOne (\<lambda>p. pay_provider_payment_id p = Some ref) (payments s) = None
      \<and> nequi_verifyWebhookSignature cr (nq_body nreq) (nq_signature nreq) (nq_timestamp nreq)
      \<and> eventType (nq_body nreq) = Some ''PAYMENT_COMPLETED''
      \<and> paymentId (nq_body nreq) = Some ref"
  then have rt: "\<exists>d p. findOne (\<lambda>d. ord_id d = cr_order_id req) (orders s) = Some d
      \<and> ord_status d = OPending
      \<and> findOne (\<lambda>p. pay_id p = newId)
            (payments (snd (createNequiPayment req (Returned npd) newId s))) = Some p
      \<and> pay_status p = PPending \<and> pay_provider_payment_id p = Some ref
      \<and> pay_order_id p = cr_order_id req
      \<and> findOne (\<lambda>d. ord_id d = cr_order_id req)
            (orders (snd (createNequiPayment req (Returned npd) newId s)))
          = Some (d\<lparr>ord_payment_id := Some newId\<rparr>)
      \<and> fst (nequi_webhook cr nreq now
            (snd (createNequiPayment req (Returned npd) newId s))) = Response 200 Received
      \<and> findOne (\<lambda>d. ord_id d = cr_order_id req)
            (orders (snd (nequi_webhook cr nreq now
               (snd (createNequiPayment req (Returned npd) newId s)))))
          = Some (d\<lparr>ord_payment_id := Some newId, ord_status := OPaid,
                    ord_payment_status := PCompleted, ord_paid_at := Some now\<rparr>)
      \<and> findOne (\<lambda>p. pay_id p = newId)
            (payments (snd (nequi_webhook cr nreq now
               (snd (createNequiPayment req (Returned npd) newId s)))))
          = Some (p\<lparr>pay_status := PCompleted, pay_raw_response := FromWebhook (nq_body nreq),
                    pay_confirmed_at := Some now\<rparr>)"
    by (intro nequi_round_trip) simp_all
  from rt show "pending_payment_recorded (cr_order_id req) newId ref
        (snd (createNequiPayment req (Returned npd) newId s))"
    by (auto simp: pending_payment_recorded_def)
  from rt show "fst (nequi_webhook cr nreq now
          (snd (createNequiPayment req (Returned npd) newId s))) = Response 200 Received"
    by blast
  from rt show "paid_with (cr_order_id req) newId
        (snd (nequi_webhook cr nreq now
           (snd (createNequiPayment req (Returned npd) newId s))))"
    by (auto simp: paid_with_def)
qed

lemma ex_create_paypal:
  "createPayPalPayment ex_create_req (Returned ex_paypal_accepted) ''PAY_1'' ex_open_db
     = (Response 200 (PayPalCreated (Some ''PP-1'') (Some ''https://paypal.test/approve/PP-1'')),
        ex_db)"
  by (simp add: createPayPalPayment_def findOne_def access_denied_def Let_def Payment_save_def
      PaymentSchema_validate_def ex_create_req_def ex_paypal_accepted_def ex_open_db_def
      ex_db_def ex_order_def ex_payment_def)

lemma ex_create_nequi:
  "createNequiPayment ex_create_req (Returned ex_nequi_accepted) ''PAY_1'' ex_open_db
     = (Response 200 (NequiCreated (Some ''PP-1'') None None),
        ex_db\<lparr>payments := [ex_payment\<lparr>pay_provider := Nequi\<rparr>]\<rparr>)"
  by (simp add: createNequiPayment_def findOne_def access_denied_def Let_def Payment_save_def
      PaymentSchema_validate_def ex_create_req_def ex_nequi_accepted_def ex_open_db_def
      ex_db_def ex_order_def ex_payment_def)

theorem create_then_completed_webhook_witness:
  "code (fst (createPayPalPayment ex_create_req (Returned ex_paypal_accepted) ''PAY_1'' ex_open_db)) = 200
   \<and> orderID ex_paypal_accepted = Some ''PP-1''
   \<and> findOne (\<lambda>p. pay_provider_payment_id p = Some ''PP-1'') (payments ex_open_db) = None
   \<and> paypal_verifyWebhookSignature (pp_body ex_completed) (pp_signature ex_completed) None ex_now
   \<and> event_type (pp_body ex_completed) = Some ''PAYMENT.CAPTURE.COMPLETED''
   \<and> resource (pp_body ex_completed) = Some ex_resource \<and> res_id ex_resource = Some ''PP-1''
   \<and> paid_with ''ORD_1'' ''PAY_1'' (snd (paypal_webhook None ex_completed ex_now ex_db))
   \<and> code (fst (createNequiPayment ex_create_req (Returned ex_nequi_accepted) ''PAY_1'' ex_open_db)) = 200
   \<and> np_paymentId ex_nequi_accepted = Some ''PP-1''
   \<and> nequi_verifyWebhookSignature ex_crypto (nq_body ex_nequi_completed)
       (nq_signature ex_nequi_completed) (nq_timestamp ex_nequi_completed)
   \<and> eventType (nq_body ex_nequi_completed) = Some ''PAYMENT_COMPLETED''
   \<and> paymentId (nq_body ex_nequi_completed) = Some ''PP-1''
   \<and> paid_with ''ORD_1'' ''PAY_1''
       (snd (nequi_webhook ex_crypto ex_nequi_completed ex_now
          (ex_db\<lparr>payments := [ex_payment\<lparr>pay_provider := Nequi\<rparr>]\<rparr>)))"
  using create_then_completed_webhook [of ex_create_req ex_paypal_accepted "''PAY_1''" ex_open_db
      "''PP-1''" ex_completed None ex_now ex_resource ex_nequi_accepted ex_crypto ex_nequi_completed]
    ex_completed_verifies ex_nequi_completed_verifies
  by (simp add: ex_create_paypal ex_create_nequi)
    (simp add: findOne_def ex_open_db_def ex_paypal_accepted_def ex_nequi_accepted_def
      ex_completed_def ex_nequi_completed_def ex_resource_def ex_create_req_def)

subsection \<open>Payment rows per order\<close>

lemma create_paypal_refused_if_not_pending:
  assumes "findOne (\<lambda>d. ord_id d = cr_order_id req) (orders s) = Some d"
    and "ord_status d \<noteq> OPending"
  shows "code (fst (createPayPalPayment req pd newId s)) = 400
         \<and> snd (createPayPalPayment req pd newId s) = s"
  using assms by (simp add: createPayPalPayment_def)

lemma create_nequi_refused_if_not_pending:
  assumes "findOne (\<lambda>d. ord_id d = cr_order_id req) (orders s) = Some d"
    and "ord_status d \<noteq> OPending"
  shows "code (fst (createNequiPayment req pd newId s)) = 400
         \<and> snd (createNequiPayment req pd newId s) = s"
  using assms by (simp add: createNequiPayment_def)

lemma failed_paypal_cancels_order:
  assumes "findOne (\<lambda>p. pay_provider_payment_id p = res_id res) (payments s) = Some p"
    and "findOne (\<lambda>d. ord_id d = pay_order_id p) (orders s) = Some d"
  shows "findOne (\<lambda>d. ord_id d = pay_order_id p) (orders (handlePayPalPaymentFailed res s))
           = Some (d\<lparr>ord_status := OCancelled, ord_payment_status := PFailed\<rparr>)"
proof -
  have "ord_id d = pay_order_id p" using findOne_SomeD [OF assms(2)] by simp
  then show ?thesis
    using assms by (simp add: handlePayPalPaymentFailed_def Let_def findOne_findOneAndUpdate_same)
qed

lemma failed_nequi_cancels_order:
  assumes "findOne (\<lambda>p. pay_provider_payment_id p = pid) (payments s) = Some p"
    and "findOne (\<lambda>d. ord_id d = pay_order_id p) (orders s) = Some d"
  shows "findOne (\<lambda>d. ord_id d = pay_order_id p) (orders (handleNequiPaymentFailed pid body s))
           = Some (d\<lparr>ord_status := OCancelled, ord_payment_status := PFailed\<rparr>)"
proof -
  have "ord_id d = pay_order_id p" using findOne_SomeD [OF assms(2)] by simp
  then show ?thesis
    using assms by (simp add: handleNequiPaymentFailed_def findOne_findOneAndUpdate_same)
qed

lemma failed_paypal_marks_payment:
  assumes "distinct (map pay_id (payments s))"
    and "findOne (\<lambda>p. pay_provider_payment_id p = res_id res) (payments s) = Some p"
  shows "findOne (\<lambda>p. pay_provider_payment_id p = res_id res)
           (payments (handlePayPalPaymentFailed res s))
         = Some (p\<lparr>pay_status := PFailed, pay_raw_response := FromResource res\<rparr>)"
  using assms
  by (simp add: handlePayPalPaymentFailed_def Let_def
      findOne_update_by_key [where key = pay_id and q = "\<lambda>p. pay_provider_payment_id p = res_id res"])

lemma failed_nequi_marks_payment:
  assumes "distinct (map pay_id (payments s))"
    and "findOne (\<lambda>p. pay_provider_payment_id p = pid) (payments s) = Some p"
  shows "findOne (\<lambda>p. pay_provider_payment_id p = pid)
           (payments (handleNequiPaymentFailed pid body s))
         = Some (p\<lparr>pay_status := PFailed, pay_raw_response := FromWebhook body\<rparr>)"
  using assms
  by (simp add: handleNequiPaymentFailed_def
      findOne_update_by_key [where key = pay_id and q = "\<lambda>p. pay_provider_payment_id p = pid"])

text \<open>
  C8, as the code has it.  The claim that a payment can be retried after a failed attempt
  does not hold: the failure webhook that marks the payment failed also cancels the
  order, and payment creation for an order that is not pending is answered 400.  No
  second row is recorded.
\<close>

theorem retry_after_failure_refused:
  "map pay_status (payments ex_db) = [PPending]
   \<and> map pay_status (payments (snd (paypal_webhook None ex_denied ex_now ex_db))) = [PFailed]
   \<and> createPayPalPayment ex_create_req (Returned ex_paypal_data) ''PAY_2''
        (snd (paypal_webhook None ex_denied ex_now ex_db))
      = (Response 400 (ErrorJson ''Order is not in pending status''),
         snd (paypal_webhook None ex_denied ex_now ex_db))
   \<and> length (payments (snd (paypal_webhook None ex_denied ex_now ex_db))) = 1"
  using ex_denied_verifies
  by (simp add: paypal_webhook_def handlePayPalPaymentFailed_def createPayPalPayment_def
      findOne_def Let_def ex_defs)

text \<open>
  C8, amended.  Once a failure webhook of either provider has marked an order's payment
  failed, the order is cancelled, and a payment-creation call for that order made in this
  state, by either provider's route, is answered 400 and leaves the store as it is: it
  records no payment row.
\<close>

theorem no_second_payment_row:
  "(distinct (map pay_id (payments s))
      \<and> findOne (\<lambda>p. pay_provider_payment_id p = res_id res) (payments s) = Some p
      \<and> findOne (\<lambda>d. ord_id d = pay_order_id p) (orders s) = Some d
      \<and> cr_order_id req = pay_order_id p \<longrightarrow>
    findOne (\<lambda>p. pay_provider_payment_id p = res_id res)
        (payments (handlePayPalPaymentFailed res s))
      = Some (p\<lparr>pay_status := PFailed, pay_raw_response := FromResource res\<rparr>)
    \<and> findOne (\<lambda>d. ord_id d = pay_order_id p) (orders (handlePayPalPaymentFailed res s))
      = Some (d\<lparr>ord_status := OCancelled, ord_payment_status := PFailed\<rparr>)
    \<and> code (fst (createPayPalPayment req ppd newId (handlePayPalPaymentFailed res s))) = 400
    \<and> snd (createPayPalPayment req ppd newId (handlePayPalPaymentFailed res s))
        = handlePayPalPaymentFailed res s
    \<and> code (fst (createNequiPayment req npd newId (handlePayPalPaymentFailed res s))) = 400
    \<and> snd (createNequiPayment req npd newId (handlePayPalPaymentFailed res s))
        = handlePayPalPaymentFailed res s)
   \<and> (distinct (map pay_id (payments s))
      \<and> findOne (\<lambda>p. pay_provider_payment_id p = pid) (payments s) = Some p
      \<and> findOne (\<lambda>d. ord_id d = pay_order_id p) (orders s) = Some d
      \<and> cr_order_id req = pay_order_id p \<longrightarrow>
    findOne (\<lambda>p. pay_provider_payment_id p = pid)
        (payments (handleNequiPaymentFailed pid body s))
      = Some (p\<lparr>pay_status := PFailed, pay_raw_response := FromWebhook body\<rparr>)
    \<and> findOne (\<lambda>d. ord_id d = pay_order_id p) (orders (handleNequiPaymentFailed pid body s))
      = Some (d\<lparr>ord_status := OCancelled, ord_payment_status := PFailed\<rparr>)
    \<and> code (fst (createPayPalPayment req ppd newId (handleNequiPaymentFailed pid body s))) = 400
    \<and> snd (createPayPalPayment req ppd newId (handleNequiPaymentFailed pid body s))
        = handleNequiPaymentFailed pid body s
    \<and> code (fst (createNequiPayment req npd newId (handleNequiPaymentFailed pid body s))) = 400
    \<and> snd (createNequiPayment req npd newId (handleNequiPaymentFailed pid body s))
        = handleNequiPaymentFailed pid body s)"
proof (intro conjI impI)
  assume a: "distinct (map pay_id (payments s))
      \<and> findOne (\<lambda>p. pay_provider_payment_id p = res_id res) (payments s) = Some p
      \<and> findOne (\<lambda>d. ord_id d = pay_order_id p) (orders s) = Some d
      \<and> cr_order_id req = pay_order_id p"
  let ?s = "handlePayPalPaymentFailed res s"
  from a have o: "findOne (\<lambda>d. ord_id d = cr_order_id req) (orders ?s)
      = Some (d\<lparr>ord_status := OCancelled, ord_payment_status := PFailed\<rparr>)"
    by (simp add: failed_paypal_cancels_order)
  show "findOne (\<lambda>p. pay_provider_payment_id p = res_id res) (payments ?s)
      = Some (p\<lparr>pay_status := PFailed, pay_raw_response := FromResource res\<rparr>)"
    using a by (simp add: failed_paypal_marks_payment)
  show "findOne (\<lambda>d. ord_id d = pay_order_id p) (orders ?s)
      = Some (d\<lparr>ord_status := OCancelled, ord_payment_status := PFailed\<rparr>)"
    using a by (simp add: failed_paypal_cancels_order)
  show "code (fst (createPayPalPayment req ppd newId ?s)) = 400"
    using create_paypal_refused_if_not_pending [OF o] by simp
  show "snd (createPayPalPayment req ppd newId ?s) = ?s"
    using create_paypal_refused_if_not_pending [OF o] by simp
  show "code (fst (createNequiPayment req npd newId ?s)) = 400"
    using create_nequi_refused_if_not_pending [OF o] by simp
  show "snd (createNequiPayment req npd newId ?s) = ?s"
    using create_nequi_refused_if_not_pending [OF o] by simp
next
  assume a: "distinct (map pay_id (payments s))
      \<and> findOne (\<lambda>p. pay_provider_payment_id p = pid) (payments s) = Some p
      \<and> findOne (\<lambda>d. ord_id d = pay_order_id p) (orders s) = Some d
      \<and> cr_order_id req = pay_order_id p"
  let ?s = "handleNequiPaymentFailed pid body s"
  from a have o: "findOne (\<lambda>d. ord_id d = cr_order_id req) (orders ?s)
      = Some (d\<lparr>ord_status := OCancelled, ord_payment_status := PFailed\<rparr>)"
    by (simp add: failed_nequi_cancels_order)
  show "findOne (\<lambda>p. pay_provider_payment_id p = pid) (payments ?s)
      = Some (p\<lparr>pay_status := PFailed, pay_raw_response := FromWebhook body\<rparr>)"
    using a by (simp add: failed_nequi_marks_payment)
  show "findOne (\<lambda>d. ord_id d = pay_order_id p) (orders ?s)
      = Some (d\<lparr>ord_status := OCancelled, ord_payment_status := PFailed\<rparr>)"
    using a by (simp add: failed_nequi_cancels_order)
  show "code (fst (createPayPalPayment req ppd newId ?s)) = 400"
    using create_paypal_refused_if_not_pending [OF o] by simp
  show "snd (createPayPalPayment req ppd newId ?s) = ?s"
    using create_paypal_refused_if_not_pending [OF o] by simp
  show "code (fst (createNequiPayment req npd newId ?s)) = 400"
    using create_nequi_refused_if_not_pending [OF o] by simp
  show "snd (createNequiPayment req npd newId ?s) = ?s"
    using create_nequi_refused_if_not_pending [OF o] by simp
qed

theorem no_second_payment_row_witness:
  "distinct (map pay_id (payments ex_db))
   \<and> findOne (\<lambda>p. pay_provider_payment_id p = res_id ex_resource) (payments ex_db) = Some ex_payment
   \<and> findOne (\<lambda>d. ord_id d = pay_order_id ex_payment) (orders ex_db) = Some ex_order
   \<and> cr_order_id ex_create_req = pay_order_id ex_payment
   \<and> findOne (\<lambda>p. pay_provider_payment_id p = Some ''PP-1'') (payments ex_db) = Some ex_payment
   \<and> map ord_status (orders (handlePayPalPaymentFailed ex_resource ex_db)) = [OCancelled]
   \<and> map pay_status (payments (handlePayPalPaymentFailed ex_resource ex_db)) = [PFailed]
   \<and> code (fst (createPayPalPayment ex_create_req (Returned ex_paypal_data) ''PAY_2''
        (handlePayPalPaymentFailed ex_resource ex_db))) = 400
   \<and> snd (createPayPalPayment ex_create_req (Returned ex_paypal_data) ''PAY_2''
        (handlePayPalPaymentFailed ex_resource ex_db)) = handlePayPalPaymentFailed ex_resource ex_db
   \<and> code (fst (createNequiPayment ex_create_req (Returned ex_nequi_accepted) ''PAY_2''
        (handleNequiPaymentFailed (Some ''PP-1'') (nq_body ex_nequi_completed) ex_db))) = 400
   \<and> snd (createNequiPayment ex_create_req (Returned ex_nequi_accepted) ''PAY_2''
        (handleNequiPaymentFailed (Some ''PP-1'') (nq_body ex_nequi_completed) ex_db))
      = handleNequiPaymentFailed (Some ''PP-1'') (nq_body ex_nequi_completed) ex_db"
  using no_second_payment_row [where s = ex_db and res = ex_resource and p = ex_payment
      and d = ex_order and req = ex_create_req and ppd = "Returned ex_paypal_data"
      and npd = "Returned ex_nequi_accepted" and newId = "''PAY_2''" and pid = "Some ''PP-1''"
      and body = "nq_body ex_nequi_completed"]
  by (simp add: findOne_def handlePayPalPaymentFailed_def Let_def
      ex_db_def ex_payment_def ex_order_def ex_resource_def ex_create_req_def)

subsection \<open>The cached access token\<close>

lemma new_Date_round: "new_Date (round_to_53 x) = new_Date x"
proof -
  consider "\<bar>x\<bar> < 2 ^ 53" | "2 ^ 53 \<le> x" | "x \<le> - (2 ^ 53)" by fastforce
  then show ?thesis
  proof cases
    case 1
    then show ?thesis by (simp add: round_to_53_small)
  next
    case 2
    with round_to_53_ge [where m = 1 and j = 53 and P = x] have "2 ^ 53 \<le> round_to_53 x" by simp
    with 2 show ?thesis by (simp add: new_Date_def)
  next
    case 3
    with round_to_53_le [where m = 1 and j = 53 and P = x] have "round_to_53 x \<le> - (2 ^ 53)" by simp
    with 3 show ?thesis by (simp add: new_Date_def)
  qed
qed

lemma expiry_of_closed:
  assumes t: "\<bar>t\<bar> \<le> 8640000000000000"
  shows "expiry_of t (Some n) = new_Date (t + (n - 1800) * 1000)"
proof -
  define a where "a = n - 1800"
  define b where "b = round_to_53 (round_to_53 a * 1000)"
  have e: "expiry_of t (Some n) = new_Date (t + b)"
    by (simp add: expiry_of_def js_add_def js_sub_def js_mul_def new_Date_round a_def b_def)
  consider "\<bar>a\<bar> < 72057594037928" | "72057594037928 \<le> a" | "a \<le> - 72057594037928"
    by fastforce
  then have "new_Date (t + b) = new_Date (t + a * 1000)"
  proof cases
    case 1
    then have "round_to_53 a = a" by (intro round_to_53_small) simp
    moreover have "round_to_53 (a * 1000) = a * 1000"
    proof (rule round_to_53_multiple [where j = 3])
      show "2 ^ 3 dvd a * 1000" by simp
      show "\<bar>a * 1000\<bar> < 2 ^ (53 + 3)" using 1 by (simp add: abs_mult)
    qed
    ultimately show ?thesis by (simp add: b_def)
  next
    case 2
    with round_to_53_ge [where m = 72057594037928 and j = 0 and P = a] have "72057594037928 \<le> round_to_53 a" by simp
    then have "1 * 2 ^ 56 \<le> round_to_53 a * 1000" by simp
    then have "1 * 2 ^ 56 \<le> b" unfolding b_def by (intro round_to_53_ge) simp_all
    with t 2 have "\<not> \<bar>t + b\<bar> \<le> 8640000000000000"
      and "\<not> \<bar>t + a * 1000\<bar> \<le> 8640000000000000" by simp_all
    then show ?thesis by (simp only: new_Date_def if_False)
  next
    case 3
    with round_to_53_le [where m = 72057594037928 and j = 0 and P = a] have "round_to_53 a \<le> - 72057594037928" by simp
    then have "round_to_53 a * 1000 \<le> - (1 * 2 ^ 56)" by simp
    then have "b \<le> - (1 * 2 ^ 56)" unfolding b_def by (intro round_to_53_le) simp_all
    with t 3 have "\<not> \<bar>t + b\<bar> \<le> 8640000000000000"
      and "\<not> \<bar>t + a * 1000\<bar> \<le> 8640000000000000" by simp_all
    then show ?thesis by (simp only: new_Date_def if_False)
  qed
  with e show ?thesis by (simp add: a_def)
qed

lemma cached_expiry_later_iff:
  assumes "\<bar>t0\<bar> \<le> 8640000000000000"
  shows "date_gt (Some (expiry_of t0 (Some e))) now
         \<longleftrightarrow> \<bar>t0 + (e - 1800) * 1000\<bar> \<le> 8640000000000000
              \<and> 1800 * 1000 < (t0 + e * 1000) - now"
proof -
  have "now < t0 + (e - 1800) * 1000 \<longleftrightarrow> 1800 * 1000 < (t0 + e * 1000) - now"
    by (simp add: algebra_simps)
  then show ?thesis
    by (simp add: expiry_of_closed [OF assms] new_Date_def date_gt_def)
qed

lemma paypal_token_cached_iff:
  assumes "tok \<noteq> []" and "\<bar>t0\<bar> \<le> 8640000000000000"
  shows "(\<forall>call issued.
            PayPalService_getAccessToken
              \<lparr>accessToken = Some tok, tokenExpiry = Some (expiry_of t0 (Some e))\<rparr> now call issued
            = (Returned (Some tok),
               \<lparr>accessToken = Some tok, tokenExpiry = Some (expiry_of t0 (Some e))\<rparr>))
         \<longleftrightarrow> \<bar>t0 + (e - 1800) * 1000\<bar> \<le> 8640000000000000
              \<and> 1800 * 1000 < (t0 + e * 1000) - now"
proof
  assume "\<forall>call issued.
            PayPalService_getAccessToken
              \<lparr>accessToken = Some tok, tokenExpiry = Some (expiry_of t0 (Some e))\<rparr> now call issued
            = (Returned (Some tok),
               \<lparr>accessToken = Some tok, tokenExpiry = Some (expiry_of t0 (Some e))\<rparr>)"
  then have "PayPalService_getAccessToken
              \<lparr>accessToken = Some tok, tokenExpiry = Some (expiry_of t0 (Some e))\<rparr> now Threw 0
            = (Returned (Some tok),
               \<lparr>accessToken = Some tok, tokenExpiry = Some (expiry_of t0 (Some e))\<rparr>)"
    by blast
  then have "date_gt (Some (expiry_of t0 (Some e))) now"
    by (simp add: PayPalService_getAccessToken_def split: if_splits)
  then show "\<bar>t0 + (e - 1800) * 1000\<bar> \<le> 8640000000000000
      \<and> 1800 * 1000 < (t0 + e * 1000) - now"
    by (simp only: cached_expiry_later_iff [OF assms(2)])
next
  assume "\<bar>t0 + (e - 1800) * 1000\<bar> \<le> 8640000000000000
      \<and> 1800 * 1000 < (t0 + e * 1000) - now"
  then have "date_gt (Some (expiry_of t0 (Some e))) now"
    by (simp only: cached_expiry_later_iff [OF assms(2)])
  with assms(1) show "\<forall>call issued.
            PayPalService_getAccessToken
              \<lparr>accessToken = Some tok, tokenExpiry = Some (expiry_of t0 (Some e))\<rparr> now call issued
            = (Returned (Some tok),
               \<lparr>accessToken = Some tok, tokenExpiry = Some (expiry_of t0 (Some e))\<rparr>)"
    by (simp add: PayPalService_getAccessToken_def truthy_def)
qed

lemma nequi_token_cached_iff:
  assumes "tok \<noteq> []" and "\<bar>t0\<bar> \<le> 8640000000000000"
  shows "(\<forall>call issued.
            NequiService_getAccessToken
              \<lparr>accessToken = Some tok, tokenExpiry = Some (expiry_of t0 (Some e))\<rparr> now call issued
            = (Returned (Some tok),
               \<lparr>accessToken = Some tok, tokenExpiry = Some (expiry_of t0 (Some e))\<rparr>))
         \<longleftrightarrow> \<bar>t0 + (e - 1800) * 1000\<bar> \<le> 8640000000000000
              \<and> 1800 * 1000 < (t0 + e * 1000) - now"
proof
  assume "\<forall>call issued.
            NequiService_getAccessToken
              \<lparr>accessToken = Some tok, tokenExpiry = Some (expiry_of t0 (Some e))\<rparr> now call issued
            = (Returned (Some tok),
               \<lparr>accessToken = Some tok, tokenExpiry = Some (expiry_of t0 (Some e))\<rparr>)"
  then have "NequiService_getAccessToken
              \<lparr>accessToken = Some tok, tokenExpiry = Some (expiry_of t0 (Some e))\<rparr> now Threw 0
            = (Returned (Some tok),
               \<lparr>accessToken = Some tok, tokenExpiry = Some (expiry_of t0 (Some e))\<rparr>)"
    by blast
  then have "date_gt (Some (expiry_of t0 (Some e))) now"
    by (simp add: NequiService_getAccessToken_def split: if_splits)
  then show "\<bar>t0 + (e - 1800) * 1000\<bar> \<le> 8640000000000000
      \<and> 1800 * 1000 < (t0 + e * 1000) - now"
    by (simp only: cached_expiry_later_iff [OF assms(2)])
next
  assume "\<bar>t0 + (e - 1800) * 1000\<bar> \<le> 8640000000000000
      \<and> 1800 * 1000 < (t0 + e * 1000) - now"
  then have "date_gt (Some (expiry_of t0 (Some e))) now"
    by (simp only: cached_expiry_later_iff [OF assms(2)])
  with assms(1) show "\<forall>call issued.
            NequiService_getAccessToken
              \<lparr>accessToken = Some tok, tokenExpiry = Some (expiry_of t0 (Some e))\<rparr> now call issued
            = (Returned (Some tok),
               \<lparr>accessToken = Some tok, tokenExpiry = Some (expiry_of t0 (Some e))\<rparr>)"
    by (simp add: NequiService_getAccessToken_def truthy_def)
qed

lemma paypal_token_refreshed:
  assumes "\<bar>t0\<bar> \<le> 8640000000000000" and "\<bar>issued\<bar> \<le> 8640000000000000"
    and "\<not> (\<bar>t0 + (e - 1800) * 1000\<bar> \<le> 8640000000000000
           \<and> 1800 * 1000 < (t0 + e * 1000) - now)"
  shows "PayPalService_getAccessToken
           \<lparr>accessToken = Some tok, tokenExpiry = Some (expiry_of t0 (Some e))\<rparr> now
           (Returned \<lparr>access_token = tok', expires_in = Some e'\<rparr>) issued
         = (Returned tok',
            \<lparr>accessToken = tok',
             tokenExpiry = Some (if \<bar>issued + (e' - 1800) * 1000\<bar> \<le> 8640000000000000
                                 then Date (issued + (e' - 1800) * 1000) else InvalidDate)\<rparr>)"
proof -
  from assms(3) have "\<not> date_gt (Some (expiry_of t0 (Some e))) now"
    unfolding cached_expiry_later_iff [OF assms(1)] .
  then show ?thesis
    by (simp add: PayPalService_getAccessToken_def expiry_of_closed [OF assms(2)] new_Date_def)
qed

lemma nequi_token_refreshed:
  assumes "\<bar>t0\<bar> \<le> 8640000000000000" and "\<bar>issued\<bar> \<le> 8640000000000000"
    and "\<not> (\<bar>t0 + (e - 1800) * 1000\<bar> \<le> 8640000000000000
           \<and> 1800 * 1000 < (t0 + e * 1000) - now)"
  shows "NequiService_getAccessToken
           \<lparr>accessToken = Some tok, tokenExpiry = Some (expiry_of t0 (Some e))\<rparr> now
           (Returned \<lparr>access_token = tok', expires_in = Some e'\<rparr>) issued
         = (Returned tok',
            \<lparr>accessToken = tok',
             tokenExpiry = Some (if \<bar>issued + (e' - 1800) * 1000\<bar> \<le> 8640000000000000
                                 then Date (issued + (e' - 1800) * 1000) else InvalidDate)\<rparr>)"
proof -
  from assms(3) have "\<not> date_gt (Some (expiry_of t0 (Some e))) now"
    unfolding cached_expiry_later_iff [OF assms(1)] .
  then show ?thesis
    by (simp add: NequiService_getAccessToken_def expiry_of_closed [OF assms(2)] new_Date_def)
qed

text \<open>
  C9, as the code has it.  A client without a token asks the provider at the moment
  1700000000000 and is told a lifetime of \<open>10 ^ 13\<close> seconds.  The expiry it computes lies
  beyond the range of a \<open>Date\<close>, so what it records is an invalid date.  A minute later far
  more than 1800 seconds remain before the provider-reported expiry, yet the call does not
  answer from the cache: it asks the provider again.
\<close>

theorem far_expiry_token_not_cached:
  "PayPalService_getAccessToken ex_no_token 1700000000000 (Returned ex_far_response) 1700000000000
     = (Returned (Some ''A21AAFs9''),
        \<lparr>accessToken = Some ''A21AAFs9'', tokenExpiry = Some InvalidDate\<rparr>)
   \<and> 1800 * 1000 < ((1700000000000::int) + 10000000000000 * 1000) - 1700000060000
   \<and> PayPalService_getAccessToken
        \<lparr>accessToken = Some ''A21AAFs9'', tokenExpiry = Some InvalidDate\<rparr>
        1700000060000 (Returned ex_token_response) 1700000060200
     = (Returned (Some ''A21AAGk2''),
        \<lparr>accessToken = Some ''A21AAGk2'',
         tokenExpiry = Some (Date (1700000060200 + (32400 - 1800) * 1000))\<rparr>)
   \<and> NequiService_getAccessToken ex_no_token 1700000000000 (Returned ex_far_response) 1700000000000
     = (Returned (Some ''A21AAFs9''),
        \<lparr>accessToken = Some ''A21AAFs9'', tokenExpiry = Some InvalidDate\<rparr>)
   \<and> NequiService_getAccessToken
        \<lparr>accessToken = Some ''A21AAFs9'', tokenExpiry = Some InvalidDate\<rparr>
        1700000060000 (Returned ex_token_response) 1700000060200
     = (Returned (Some ''A21AAGk2''),
        \<lparr>accessToken = Some ''A21AAGk2'',
         tokenExpiry = Some (Date (1700000060200 + (32400 - 1800) * 1000))\<rparr>)"
  by (simp add: PayPalService_getAccessToken_def NequiService_getAccessToken_def truthy_def
      date_gt_def expiry_of_closed new_Date_def ex_no_token_def ex_far_response_def
      ex_token_response_def)

text \<open>
  C9, amended.  Take a client whose cache holds a token \<open>tok\<close> recorded at \<open>t0\<close> for a
  provider-reported lifetime of \<open>e\<close> seconds, so that the provider-reported expiry is
  \<open>t0 + e * 1000\<close> and the recorded one 1800 seconds earlier; the clock shows moments
  that a \<open>Date\<close> can hold.  A call at \<open>now\<close> answers from the cache, whatever the provider
  would say and leaving the cache as it is, if and only if the recorded expiry is within
  the range of a \<open>Date\<close> and more than 1800 seconds remain before the provider-reported
  expiry.  Otherwise the provider's answer is returned and recorded, with the expiry set
  to the moment of recording plus \<open>expires_in - 1800\<close> seconds when that is within the
  range of a \<open>Date\<close>, and to an invalid date when it is not.  This holds for the PayPal and
  for the Nequi client.
\<close>

theorem cached_token_iff_margin:
  "tok \<noteq> [] \<and> \<bar>t0\<bar> \<le> 8640000000000000 \<and> \<bar>issued\<bar> \<le> 8640000000000000 \<longrightarrow>
     ((\<forall>call issued.
         PayPalService_getAccessToken
           \<lparr>accessToken = Some tok, tokenExpiry = Some (expiry_of t0 (Some e))\<rparr> now call issued
         = (Returned (Some tok),
            \<lparr>accessToken = Some tok, tokenExpiry = Some (expiry_of t0 (Some e))\<rparr>))
       \<longleftrightarrow> \<bar>t0 + (e - 1800) * 1000\<bar> \<le> 8640000000000000
            \<and> 1800 * 1000 < (t0 + e * 1000) - now)
     \<and> ((\<forall>call issued.
         NequiService_getAccessToken
           \<lparr>accessToken = Some tok, tokenExpiry = Some (expiry_of t0 (Some e))\<rparr> now call issued
         = (Returned (Some tok),
            \<lparr>accessToken = Some tok, tokenExpiry = Some (expiry_of t0 (Some e))\<rparr>))
       \<longleftrightarrow> \<bar>t0 + (e - 1800) * 1000\<bar> \<le> 8640000000000000
            \<and> 1800 * 1000 < (t0 + e * 1000) - now)
     \<and> (\<not> (\<bar>t0 + (e - 1800) * 1000\<bar> \<le> 8640000000000000
             \<and> 1800 * 1000 < (t0 + e * 1000) - now) \<longrightarrow>
          PayPalService_getAccessToken
            \<lparr>accessToken = Some tok, tokenExpiry = Some (expiry_of t0 (Some e))\<rparr> now
            (Returned \<lparr>access_token = tok', expires_in = Some e'\<rparr>) issued
          = (Returned tok',
             \<lparr>accessToken = tok',
              tokenExpiry = Some (if \<bar>issued + (e' - 1800) * 1000\<bar> \<le> 8640000000000000
                                  then Date (issued + (e' - 1800) * 1000) else InvalidDate)\<rparr>)
          \<and> NequiService_getAccessToken
            \<lparr>accessToken = Some tok, tokenExpiry = Some (expiry_of t0 (Some e))\<rparr> now
            (Returned \<lparr>access_token = tok', expires_in = Some e'\<rparr>) issued
          = (Returned tok',
             \<lparr>accessToken = tok',
              tokenExpiry = Some (if \<bar>issued + (e' - 1800) * 1000\<bar> \<le> 8640000000000000
                                  then Date (issued + (e' - 1800) * 1000) else InvalidDate)\<rparr>))"
  using paypal_token_cached_iff [of tok t0 e now] nequi_token_cached_iff [of tok t0 e now]
    paypal_token_refreshed [of t0 issued e now tok tok' e']
    nequi_token_refreshed [of t0 issued e now tok tok' e']
  by blast

theorem cached_token_iff_margin_witness:
  "''A21AAFs9'' \<noteq> []
   \<and> \<bar>1700000000000::int\<bar> \<le> 8640000000000000
   \<and> \<bar>1700030600350::int\<bar> \<le> 8640000000000000
   \<and> \<bar>(1700000000000::int) + (32400 - 1800) * 1000\<bar> \<le> 8640000000000000
   \<and> (1800 * 1000 < ((1700000000000::int) + 32400 * 1000) - 1700000060000)
   \<and> PayPalService_getAccessToken ex_cache 1700000060000 Threw 1700000060200
       = (Returned (Some ''A21AAFs9''), ex_cache)
   \<and> \<not> (1800 * 1000 < ((1700000000000::int) + 32400 * 1000) - 1700030600000)
   \<and> PayPalService_getAccessToken ex_cache 1700030600000 (Returned ex_token_response) 1700030600350
       = (Returned (Some ''A21AAGk2''),
          \<lparr>accessToken = Some ''A21AAGk2'',
           tokenExpiry = Some (Date (1700030600350 + (32400 - 1800) * 1000))\<rparr>)"
  using cached_token_iff_margin [where tok = "''A21AAFs9''" and ?t0.0 = 1700000000000
      and e = 32400 and now = 1700000060000 and issued = 1700030600350]
    cached_token_iff_margin [where tok = "''A21AAFs9''" and ?t0.0 = 1700000000000
      and e = 32400 and now = 1700030600000 and tok' = "Some ''A21AAGk2''" and e' = 32400
      and issued = 1700030600350]
  by (simp add: ex_cache_def ex_token_response_def)

subsection \<open>The amounts of a created order\<close>

lemma defaultTaxRate_nearest:
  "2 ^ 52 \<le> mant defaultTaxRate \<and> mant defaultTaxRate < 2 ^ 53
   \<and> \<bar>double_value defaultTaxRate - 19 / 100\<bar> < 2 powi (expo defaultTaxRate) / 2"
  by (simp add: defaultTaxRate_def double_value_def power_int_minus)

lemma calculateTax_div:
  "calculateTax s defaultTaxRate = (round_to_53 (s * 6845471433603154) + 2 ^ 54) div 2 ^ 55"
proof -
  define Q where "Q = round_to_53 (s * 6845471433603154)"
  have "(of_int Q :: rat) * 2 powi (- 55) + 1 / 2 = of_int (Q + 2 ^ 54) / of_int (2 ^ 55)"
    by (simp add: power_int_minus field_simps)
  then have "\<lfloor>(of_int Q :: rat) * 2 powi (- 55) + 1 / 2\<rfloor> = (Q + 2 ^ 54) div 2 ^ 55"
    by (simp only: floor_divide_of_int_eq)
  then show ?thesis
    by (simp add: calculateTax_def js_times_def Math_round_def defaultTaxRate_def Q_def)
qed

lemma calculateTax_default:
  assumes "0 \<le> s" and "s < 2 ^ 40"
  shows "calculateTax s defaultTaxRate = (19 * s + 50) div 100"
proof (cases "s = 0")
  case True
  then show ?thesis by (simp add: calculateTax_div round_to_53_def)
next
  case False
  with assms have s: "0 < s" by simp
  define N where "N = (19 * s + 50) div 100"
  define r where "r = (19 * s + 50) mod 100"
  have Nr: "19 * s + 50 = 100 * N + r" "0 \<le> r" "r < 100"
    by (simp_all add: N_def r_def)
  define P where "P = s * 6845471433603154"
  have P: "0 < P" using s by (simp add: P_def)
  define Q where "Q = round_to_53 P"
  have N0: "0 \<le> N" using Nr s by linarith
  have Nb: "N < 2 ^ 38" using Nr assms by simp
  have lower: "(2 * N - 1) * 2 ^ 54 \<le> Q"
  proof -
    have "(2 * N - 1) * 2 ^ 54 \<le> P" using Nr s by (simp add: P_def)
    moreover have "2 * N - 1 < 2 ^ 53" using Nb by simp
    ultimately show ?thesis unfolding Q_def using P by (intro round_to_53_lower)
  qed
  have upper: "Q \<le> (256 * N + 127) * 2 ^ 47"
  proof -
    have "P \<le> (256 * N + 127) * 2 ^ 47" using Nr assms by (simp add: P_def)
    moreover have "256 * N + 127 < 2 ^ 53" using Nb by simp
    ultimately show ?thesis unfolding Q_def using P by (intro round_to_53_upper)
  qed
  have "(Q + 2 ^ 54) div 2 ^ 55 = N"
  proof -
    have "N * 2 ^ 55 \<le> Q + 2 ^ 54" using lower by simp
    moreover have "Q + 2 ^ 54 < (N + 1) * 2 ^ 55" using upper by simp
    ultimately show ?thesis
      by (intro div_pos_pos_trivial [THEN trans, rotated] int_div_pos_eq
          [where r = "Q + 2 ^ 54 - N * 2 ^ 55"]) simp_all
  qed
  then show ?thesis by (simp add: calculateTax_div N_def Q_def P_def)
qed

lemma calculateTax_bounds:
  assumes "0 \<le> s" and "s < 2 ^ 53"
  shows "0 \<le> calculateTax s defaultTaxRate \<and> calculateTax s defaultTaxRate \<le> s"
proof (cases "s = 0")
  case True
  then show ?thesis by (simp add: calculateTax_div round_to_53_def)
next
  case False
  with assms have s: "0 < s" by simp
  define P where "P = s * 6845471433603154"
  have P: "0 < P" using s by (simp add: P_def)
  define Q where "Q = round_to_53 P"
  have "0 * 2 ^ 0 \<le> Q" unfolding Q_def using P by (intro round_to_53_lower) simp_all
  then have lower: "0 \<le> Q" by simp
  have upper: "Q \<le> s * 2 ^ 53"
  proof -
    have "P \<le> s * 2 ^ 53" using s by (simp add: P_def)
    then show ?thesis unfolding Q_def using P assms(2) by (intro round_to_53_upper)
  qed
  have "0 \<le> (Q + 2 ^ 54) div 2 ^ 55" using lower by (simp add: pos_imp_zdiv_nonneg_iff)
  moreover have "(Q + 2 ^ 54) div 2 ^ 55 \<le> s"
  proof -
    have "Q + 2 ^ 54 < (s + 1) * 2 ^ 55" using upper s by simp
    then have "(Q + 2 ^ 54) div 2 ^ 55 < s + 1" by (simp add: div_less_iff_less_mult)
    then show ?thesis by simp
  qed
  ultimately show ?thesis by (simp add: calculateTax_div Q_def P_def)
qed

lemma validate_items_result:
  "validate_items ps lines sub acc = Inr (sub', items) \<Longrightarrow>
     \<exists>new. items = acc @ new \<and> sub' = running_total sub new
       \<and> list_all2 (priced_from ps) lines new"
proof (induction lines arbitrary: sub acc)
  case Nil
  then show ?case by simp
next
  case (Cons line lines)
  from Cons.prems obtain p where
    p: "findOne (\<lambda>p. prod_id p = line_product_id line \<and> prod_active p) ps = Some p"
    by (auto split: option.splits)
  let ?i = "\<lparr>item_product_id = prod_id p, item_title = prod_title p,
      item_price_cop = prod_price_cop p, item_quantity = line_quantity line,
      item_sku = prod_sku p\<rparr>"
  from Cons.prems p have
    rest: "validate_items ps lines
             (js_add sub (js_mul (prod_price_cop p) (line_quantity line))) (acc @ [?i])
             = Inr (sub', items)"
    by (auto split: if_splits)
  from Cons.IH [OF rest] obtain new where
    new: "items = (acc @ [?i]) @ new"
      "sub' = running_total (js_add sub (js_mul (prod_price_cop p) (line_quantity line))) new"
      "list_all2 (priced_from ps) lines new"
    by blast
  have "priced_from ps line ?i" using p by (simp add: priced_from_def)
  with new show ?case
    by (intro exI [of _ "?i # new"]) simp
qed

lemma items_total_nonneg:
  "list_all OrderItemSchema_validate items \<Longrightarrow> 0 \<le> items_total items"
  by (induction items) (simp_all add: items_total_def OrderItemSchema_validate_def)

lemma running_total_exact:
  assumes "0 \<le> sub" and "list_all OrderItemSchema_validate items"
    and "sub + items_total items < 2 ^ 53"
  shows "running_total sub items = sub + items_total items"
  using assms
proof (induction items arbitrary: sub)
  case Nil
  then show ?case by (simp add: items_total_def)
next
  case (Cons i items)
  let ?t = "item_price_cop i * item_quantity i"
  from Cons.prems(2) have t0: "0 \<le> ?t"
    by (simp add: OrderItemSchema_validate_def)
  from Cons.prems(2) have rest0: "0 \<le> items_total items"
    by (simp add: items_total_nonneg)
  from Cons.prems(3) have b: "sub + ?t + items_total items < 2 ^ 53"
    by (simp add: items_total_def)
  have m: "js_mul (item_price_cop i) (item_quantity i) = ?t"
    unfolding js_mul_def using t0 b rest0 Cons.prems(1) by (intro round_to_53_small) simp
  have a: "js_add sub ?t = sub + ?t"
    unfolding js_add_def using t0 b rest0 Cons.prems(1) by (intro round_to_53_small) simp
  have "running_total (sub + ?t) items = sub + ?t + items_total items"
    using Cons.prems(1,2) t0 b by (intro Cons.IH) simp_all
  then show ?case by (simp add: m a items_total_def)
qed

lemma createOrder_saved:
  assumes "orders (snd (createOrder req newId s)) \<noteq> orders s"
  shows "\<exists>d. orders (snd (createOrder req newId s)) = orders s @ [d]
           \<and> ord_subtotal_cop d = running_total 0 (ord_items d)
           \<and> ord_tax_cop d = calculateTax (ord_subtotal_cop d) defaultTaxRate
           \<and> ord_total_cop d = js_add (ord_subtotal_cop d) (ord_tax_cop d)
           \<and> list_all2 (priced_from (products s)) (co_items req) (ord_items d)
           \<and> list_all OrderItemSchema_validate (ord_items d)"
proof -
  from assms obtain sub items where
    v: "validate_items (products s) (co_items req) 0 [] = Inr (sub, items)"
    by (auto simp: createOrder_def split: if_splits sum.splits)
  from validate_items_result [OF v] have
    items: "sub = running_total 0 items"
      "list_all2 (priced_from (products s)) (co_items req) items"
    by auto
  from assms v obtain pm where pm: "provider_of_string (co_payment_method req) = Some pm"
    by (auto simp: createOrder_def Let_def split: if_splits option.splits)
  let ?d = "\<lparr>ord_id = newId, ord_user_id = map_option userId (co_user req), ord_items = items,
      ord_subtotal_cop = sub, ord_tax_cop = calculateTax sub defaultTaxRate,
      ord_total_cop = js_add sub (calculateTax sub defaultTaxRate), ord_currency = ''COP'',
      ord_status = OPending, ord_payment_provider = pm, ord_payment_id = None,
      ord_payment_status = PPending, ord_paid_at = None\<rparr>"
  from assms v pm have "orders (snd (createOrder req newId s)) = orders s @ [?d]"
    and "list_all OrderItemSchema_validate items"
    by (auto simp: createOrder_def Let_def Order_save_def OrderSchema_validate_def
        split: if_splits prod.splits bool.splits)
  with items show ?thesis by simp
qed

lemma createOrder_201_saved:
  assumes "code (fst (createOrder req newId s)) = 201"
  shows "orders (snd (createOrder req newId s)) \<noteq> orders s"
  using assms
  by (auto simp: createOrder_def Let_def Order_save_def
      split: if_splits sum.splits option.splits prod.splits bool.splits)

lemma bitlen_eqI:
  assumes "2 ^ n \<le> x" and "x < 2 ^ Suc n"
  shows "bitlen x = int (Suc n)"
proof -
  from assms(2) have "bitlen x \<le> int (Suc n)"
    unfolding bitlen_le_iff_power by (simp add: nat_add_distrib)
  moreover from assms(1) have "\<not> bitlen x \<le> int n"
    unfolding bitlen_le_iff_power by simp
  ultimately show ?thesis by simp
qed

lemma ex_big_product_of_quantity: "js_mul 9007199254740991 3 = 27021597764222972"
  using bitlen_eqI [of 54 27021597764222973]
  by (simp add: js_mul_def round_to_53_def round_multiple_def Let_def)

lemma ex_big_subtotal: "js_add 0 27021597764222972 = 27021597764222972"
  using bitlen_eqI [of 54 27021597764222972]
  by (simp add: js_add_def round_to_53_def round_multiple_def Let_def)

lemma ex_big_tax: "calculateTax 27021597764222972 defaultTaxRate = 5134103575202365"
  using bitlen_eqI [of 107 184975575585303209046241018453688]
  by (simp add: calculateTax_div round_to_53_def round_multiple_def Let_def)

lemma ex_big_total: "js_add 27021597764222972 5134103575202365 = 32155701339425336"
  using bitlen_eqI [of 54 32155701339425337]
  by (simp add: js_add_def round_to_53_def round_multiple_def Let_def)

text \<open>
  C10, as the code has it.  The shop sells a product priced at \<open>2 ^ 53 - 1\<close> pesos, and an
  order asks for three of it.  The order is created with 201.  The product of price and
  quantity, 27021597764222973, has 55 bits and is not a double: the subtotal stored is
  27021597764222972.  The tax is 19 % of that, rounded; and subtotal plus tax,
  32155701339425337, is again not a double: the total stored is 32155701339425336.
\<close>

theorem big_order_amounts_rounded:
  "createOrder ex_big_order_req ''ORD_9'' ex_big_shop
     = (Response 201 (OrderCreated ''ORD_9'' 32155701339425336 ''COP'' OPending),
        \<lparr>payments = [], orders = [ex_big_order],
         products = [ex_big_product\<lparr>prod_inventory := Some 7\<rparr>]\<rparr>)
   \<and> ord_subtotal_cop ex_big_order = 27021597764222972
   \<and> items_total (ord_items ex_big_order) = 27021597764222973
   \<and> ord_tax_cop ex_big_order = (19 * ord_subtotal_cop ex_big_order + 50) div 100
   \<and> ord_total_cop ex_big_order = 32155701339425336
   \<and> ord_subtotal_cop ex_big_order + ord_tax_cop ex_big_order = 32155701339425337
   \<and> ord_subtotal_cop ex_big_order \<noteq> items_total (ord_items ex_big_order)
   \<and> ord_total_cop ex_big_order \<noteq> ord_subtotal_cop ex_big_order + ord_tax_cop ex_big_order"
  by (simp add: createOrder_def ex_big_order_req_def ex_big_shop_def ex_big_product_def
      ex_big_order_def findOne_def Let_def provider_of_string_def Order_save_def
      OrderSchema_validate_def OrderItemSchema_validate_def inc_inventory_def items_total_def
      ex_big_product_of_quantity ex_big_subtotal ex_big_tax ex_big_total)

text \<open>
  C10, amended.  When \<open>createOrder\<close> answers 201 it has appended one order to the
  collection.  Each item of that order has the quantity of the corresponding request line
  and the price of the stored active product that line names, whatever price the client
  sent.  When the sum of price times quantity over the items is below \<open>2 ^ 52\<close> pesos,
  the subtotal of the order is that sum, its tax is \<open>calculateTax\<close> of the subtotal at the
  default rate, and its total is subtotal plus tax.  When the sum is below \<open>2 ^ 40\<close>
  pesos, the tax is exactly 19 % of the subtotal rounded to the nearest peso with a half
  rounded up.
\<close>

theorem created_order_amounts:
  "code (fst (createOrder req newId s)) = 201 \<longrightarrow>
     (\<exists>d. orders (snd (createOrder req newId s)) = orders s @ [d]
        \<and> list_all2 (priced_from (products s)) (co_items req) (ord_items d)
        \<and> (items_total (ord_items d) < 2 ^ 52 \<longrightarrow>
             ord_subtotal_cop d = items_total (ord_items d)
             \<and> ord_tax_cop d = calculateTax (ord_subtotal_cop d) defaultTaxRate
             \<and> ord_total_cop d = ord_subtotal_cop d + ord_tax_cop d)
        \<and> (items_total (ord_items d) < 2 ^ 40 \<longrightarrow>
             ord_tax_cop d = (19 * ord_subtotal_cop d + 50) div 100))"
proof
  assume "code (fst (createOrder req newId s)) = 201"
  then have "orders (snd (createOrder req newId s)) \<noteq> orders s"
    by (rule createOrder_201_saved)
  from createOrder_saved [OF this] obtain d where
    d: "orders (snd (createOrder req newId s)) = orders s @ [d]"
      "ord_subtotal_cop d = running_total 0 (ord_items d)"
      "ord_tax_cop d = calculateTax (ord_subtotal_cop d) defaultTaxRate"
      "ord_total_cop d = js_add (ord_subtotal_cop d) (ord_tax_cop d)"
      "list_all2 (priced_from (products s)) (co_items req) (ord_items d)"
      "list_all OrderItemSchema_validate (ord_items d)"
    by blast
  have nonneg: "0 \<le> items_total (ord_items d)"
    using d(6) by (rule items_total_nonneg)
  have exact: "ord_subtotal_cop d = items_total (ord_items d)
      \<and> ord_total_cop d = ord_subtotal_cop d + ord_tax_cop d"
    if b: "items_total (ord_items d) < 2 ^ 52"
  proof -
    from b have "0 + items_total (ord_items d) < 2 ^ 53" by simp
    from running_total_exact [OF _ d(6) this] d(2)
    have sub: "ord_subtotal_cop d = items_total (ord_items d)" by simp
    from calculateTax_bounds [of "ord_subtotal_cop d"] sub nonneg b d(3)
    have tax: "0 \<le> ord_tax_cop d" "ord_tax_cop d \<le> ord_subtotal_cop d" by simp_all
    have "js_add (ord_subtotal_cop d) (ord_tax_cop d) = ord_subtotal_cop d + ord_tax_cop d"
      unfolding js_add_def using tax sub nonneg b by (intro round_to_53_small) simp
    with sub d(4) show ?thesis by simp
  qed
  have closed: "ord_tax_cop d = (19 * ord_subtotal_cop d + 50) div 100"
    if b: "items_total (ord_items d) < 2 ^ 40"
  proof -
    from b have "items_total (ord_items d) < 2 ^ 52" by simp
    from exact [OF this] have "ord_subtotal_cop d = items_total (ord_items d)" by simp
    with nonneg b d(3) show ?thesis by (simp add: calculateTax_default)
  qed
  from d(1,3,5) exact closed show
    "\<exists>d. orders (snd (createOrder req newId s)) = orders s @ [d]
        \<and> list_all2 (priced_from (products s)) (co_items req) (ord_items d)
        \<and> (items_total (ord_items d) < 2 ^ 52 \<longrightarrow>
             ord_subtotal_cop d = items_total (ord_items d)
             \<and> ord_tax_cop d = calculateTax (ord_subtotal_cop d) defaultTaxRate
             \<and> ord_total_cop d = ord_subtotal_cop d + ord_tax_cop d)
        \<and> (items_total (ord_items d) < 2 ^ 40 \<longrightarrow>
             ord_tax_cop d = (19 * ord_subtotal_cop d + 50) div 100)"
    by blast
qed

lemma ex_createOrder:
  "createOrder ex_order_req ''ORD_9'' ex_shop =
     (Response 201 (OrderCreated ''ORD_9'' 119000 ''COP'' OPending),
      \<lparr>payments = [],
       orders = [\<lparr>ord_id = ''ORD_9'', ord_user_id = None,
                  ord_items = [\<lparr>item_product_id = ''P1'', item_title = ''Plan'',
                                item_price_cop = 50000, item_quantity = 2, item_sku = ''SKU1''\<rparr>],
                  ord_subtotal_cop = 100000, ord_tax_cop = 19000, ord_total_cop = 119000,
                  ord_currency = ''COP'', ord_status = OPending, ord_payment_provider = PayPal,
                  ord_payment_id = None, ord_payment_status = PPending, ord_paid_at = None\<rparr>],
       products = [ex_product\<lparr>prod_inventory := Some 8\<rparr>]\<rparr>)"
  by (simp add: createOrder_def ex_order_req_def ex_shop_def ex_product_def findOne_def Let_def
      calculateTax_default provider_of_string_def Order_save_def OrderSchema_validate_def
      OrderItemSchema_validate_def inc_inventory_def js_add_def js_mul_def round_to_53_small)

theorem created_order_amounts_witness:
  "code (fst (createOrder ex_order_req ''ORD_9'' ex_shop)) = 201
   \<and> (\<exists>d. orders (snd (createOrder ex_order_req ''ORD_9'' ex_shop)) = orders ex_shop @ [d]
        \<and> items_total (ord_items d) < 2 ^ 40
        \<and> ord_subtotal_cop d = items_total (ord_items d)
        \<and> ord_tax_cop d = (19 * ord_subtotal_cop d + 50) div 100
        \<and> ord_total_cop d = ord_subtotal_cop d + ord_tax_cop d
        \<and> list_all2 (priced_from (products ex_shop)) (co_items ex_order_req) (ord_items d))
   \<and> map ord_subtotal_cop (orders (snd (createOrder ex_order_req ''ORD_9'' ex_shop))) = [100000]
   \<and> map ord_tax_cop (orders (snd (createOrder ex_order_req ''ORD_9'' ex_shop))) = [19000]
   \<and> map ord_total_cop (orders (snd (createOrder ex_order_req ''ORD_9'' ex_shop))) = [119000]"
  using created_order_amounts [of ex_order_req "''ORD_9''" ex_shop]
  by (simp add: ex_createOrder items_total_def)

end
